theory Spec2Isabelle
  imports Complex_Main
begin

section \<open>Data model (lib/api and hooks/use-chat-state.ts)\<close>

text \<open>
  JavaScript strings are modelled as HOL strings, one \<^typ>\<open>char\<close> per code unit below 256.
  A \<open>Date\<close> and the value of \<open>Date.now()\<close> are natural numbers (milliseconds).
  An optional property \<open>f?: T\<close> is a \<open>T option\<close>; \<open>None\<close> is \<open>undefined\<close>.
  A \<open>Set<string>\<close> is the set of its members (the order of insertion is not kept).
  A value of type \<open>unknown\<close> is kept as its JSON text.
\<close>

type_synonym json_record = "(string \<times> string) list"

record Source =
  text' :: string
  metadata :: "json_record option"
  score :: "real option"

record QueryResponse =
  response :: string
  source_nodes :: "Source list"

record LocalQueryResponse = QueryResponse +
  metadata_context :: json_record
  web_search_eligible :: bool
  preferred_sources :: "string list option"
  suggested_search_context :: "string option"
  message_id :: "string option"

record WebSearchResult =
  title :: string
  link :: string
  snippet :: string
  position :: nat

record WebEnrichmentResponse =
  synthesized_keywords :: "string list"
  web_search_results :: "WebSearchResult list"
  enriched_response :: string
  sources_fetched :: nat

datatype HealthStatus = healthy | degraded

record HealthResponse =
  status :: HealthStatus
  index_loaded :: bool
  index_path_exists :: "bool option"
  version :: "string option"

datatype MessageType = user | assistant

record Message =
  id' :: string
  type' :: MessageType
  content :: string
  timestamp :: nat
  sources :: "Source list option"
  enhancedResponse :: "LocalQueryResponse option"
  webSearchResponse :: "WebEnrichmentResponse option"
  isWebSearchLoading :: "bool option"
  showWebSearchButton :: "bool option"

text \<open>
  \<open>Partial<Message>\<close>: every property may be left out. \<open>None\<close> is a property the record
  does not name; \<open>Some v\<close> names it with value \<open>v\<close> (for an optional property of
  \<open>Message\<close> the value may itself be \<open>undefined\<close>, that is \<open>Some None\<close>).
\<close>

record MessageUpdates =
  upd_id :: "string option"
  upd_type :: "MessageType option"
  upd_content :: "string option"
  upd_timestamp :: "nat option"
  upd_sources :: "Source list option option"
  upd_enhancedResponse :: "LocalQueryResponse option option"
  upd_webSearchResponse :: "WebEnrichmentResponse option option"
  upd_isWebSearchLoading :: "bool option option"
  upd_showWebSearchButton :: "bool option option"

text \<open>The query mode is the string the runtime holds (\<open>'basic' | 'combined' | 'enhanced'\<close>).\<close>

type_synonym QueryMode = string

record ChatState =
  messages :: "Message list"
  input :: string
  isLoading :: bool
  error :: "string option"
  isHealthy :: "bool option"
  healthDetails :: "HealthResponse option"
  expandedSources :: "string set"
  queryMode :: QueryMode

text \<open>
  The nine actions of \<open>ChatAction\<close>, and \<open>OTHER_ACTION t\<close> for an action object whose
  \<open>type\<close> tag \<open>t\<close> is none of the nine (the \<open>default\<close> branch of the switch).
\<close>

datatype ChatAction =
    SET_INPUT string
  | SET_LOADING bool
  | SET_ERROR "string option"
  | SET_HEALTH "bool option" "HealthResponse option"
  | SET_QUERY_MODE QueryMode
  | ADD_MESSAGE Message
  | UPDATE_MESSAGE string MessageUpdates
  | CLEAR_INPUT
  | TOGGLE_SOURCES string
  | OTHER_ACTION string

fun action_type :: "ChatAction \<Rightarrow> string" where
  "action_type (SET_INPUT _) = ''SET_INPUT''"
| "action_type (SET_LOADING _) = ''SET_LOADING''"
| "action_type (SET_ERROR _) = ''SET_ERROR''"
| "action_type (SET_HEALTH _ _) = ''SET_HEALTH''"
| "action_type (SET_QUERY_MODE _) = ''SET_QUERY_MODE''"
| "action_type (ADD_MESSAGE _) = ''ADD_MESSAGE''"
| "action_type (UPDATE_MESSAGE _ _) = ''UPDATE_MESSAGE''"
| "action_type CLEAR_INPUT = ''CLEAR_INPUT''"
| "action_type (TOGGLE_SOURCES _) = ''TOGGLE_SOURCES''"
| "action_type (OTHER_ACTION t) = t"

definition recognized_action_types :: "string list" where
  "recognized_action_types =
     [''SET_INPUT'', ''SET_LOADING'', ''SET_ERROR'', ''SET_HEALTH'', ''SET_QUERY_MODE'',
      ''ADD_MESSAGE'', ''UPDATE_MESSAGE'', ''CLEAR_INPUT'', ''TOGGLE_SOURCES'']"

definition initialState :: ChatState where
  "initialState =
     \<lparr>messages = [], input = [], isLoading = False, error = None, isHealthy = None,
      healthDetails = None, expandedSources = {}, queryMode = ''enhanced''\<rparr>"

section \<open>The reducer (hooks/use-chat-state.ts)\<close>

text \<open>The object spread \<open>{ ...msg, ...updates }\<close>: a property named by \<open>updates\<close> wins.\<close>

definition spread :: "Message \<Rightarrow> MessageUpdates \<Rightarrow> Message" where
  "spread msg updates =
     \<lparr>id' = (case upd_id updates of None \<Rightarrow> id' msg | Some v \<Rightarrow> v),
      type' = (case upd_type updates of None \<Rightarrow> type' msg | Some v \<Rightarrow> v),
      content = (case upd_content updates of None \<Rightarrow> content msg | Some v \<Rightarrow> v),
      timestamp = (case upd_timestamp updates of None \<Rightarrow> timestamp msg | Some v \<Rightarrow> v),
      sources = (case upd_sources updates of None \<Rightarrow> sources msg | Some v \<Rightarrow> v),
      enhancedResponse =
        (case upd_enhancedResponse updates of None \<Rightarrow> enhancedResponse msg | Some v \<Rightarrow> v),
      webSearchResponse =
        (case upd_webSearchResponse updates of None \<Rightarrow> webSearchResponse msg | Some v \<Rightarrow> v),
      isWebSearchLoading =
        (case upd_isWebSearchLoading updates of None \<Rightarrow> isWebSearchLoading msg | Some v \<Rightarrow> v),
      showWebSearchButton =
        (case upd_showWebSearchButton updates of None \<Rightarrow> showWebSearchButton msg | Some v \<Rightarrow> v)\<rparr>"

fun chatReducer :: "ChatState \<Rightarrow> ChatAction \<Rightarrow> ChatState" where
  "chatReducer state (SET_INPUT payload) = state\<lparr>input := payload\<rparr>"
| "chatReducer state (SET_LOADING payload) = state\<lparr>isLoading := payload\<rparr>"
| "chatReducer state (SET_ERROR payload) = state\<lparr>error := payload\<rparr>"
| "chatReducer state (SET_HEALTH h details) = state\<lparr>isHealthy := h, healthDetails := details\<rparr>"
| "chatReducer state (SET_QUERY_MODE payload) = state\<lparr>queryMode := payload\<rparr>"
| "chatReducer state (ADD_MESSAGE payload) = state\<lparr>messages := messages state @ [payload]\<rparr>"
| "chatReducer state (UPDATE_MESSAGE i updates) =
     state\<lparr>messages := map (\<lambda>msg. if id' msg = i then spread msg updates else msg) (messages state)\<rparr>"
| "chatReducer state CLEAR_INPUT = state\<lparr>input := []\<rparr>"
| "chatReducer state (TOGGLE_SOURCES payload) =
     (let newExpandedSources =
        (if payload \<in> expandedSources state then expandedSources state - {payload}
         else insert payload (expandedSources state))
      in state\<lparr>expandedSources := newExpandedSources\<rparr>)"
| "chatReducer state (OTHER_ACTION _) = state"

section \<open>The API client (lib/api)\<close>

text \<open>
  What an \<open>await\<close> can throw. \<open>Error m\<close> is any instance of \<open>Error\<close> that is not an
  \<open>AuthenticationError\<close> (also a \<open>TypeError\<close> of \<open>fetch\<close> or a parse error of
  \<open>response.json()\<close>), with its message; \<open>NonError\<close> is a thrown value that is no
  instance of \<open>Error\<close>.
\<close>

datatype thrown = AuthenticationError string | Error string | NonError

record 'a Response =
  status :: nat
  statusText :: string
  json :: "thrown + 'a"

definition ok :: "'a Response \<Rightarrow> bool" where
  "ok r = (200 \<le> status r \<and> status r \<le> 299)"

text \<open>The answer of \<open>fetch\<close>: a response, or a rejection (\<open>Inl\<close>).\<close>

type_synonym 'a fetch_result = "thrown + 'a Response"

record QueryRequest =
  query :: string
  top_k :: nat
  filters :: "json_record option"

record WebEnrichmentRequest =
  wr_query :: string
  wr_message_id :: "string option"
  wr_local_context :: "string option"
  wr_preferred_sources :: "string list option"
  wr_keywords :: "string list option"
  wr_max_results :: "nat option"
  wr_concise_mode :: "bool option"

text \<open>
  The network as the client meets it: for each endpoint, the answer \<open>fetch\<close> gives to a
  request body. The headers the client sends play no part in what it does with the answer
  and are left out.
\<close>

record Backend =
  GET_health :: "HealthResponse fetch_result"
  POST_query :: "QueryRequest \<Rightarrow> QueryResponse fetch_result"
  POST_query_combined :: "QueryRequest \<Rightarrow> QueryResponse fetch_result"
  POST_query_local :: "QueryRequest \<Rightarrow> LocalQueryResponse fetch_result"
  POST_query_web_enrich :: "WebEnrichmentRequest \<Rightarrow> WebEnrichmentResponse fetch_result"
  GET_filters :: "json_record fetch_result"

text \<open>
  \<open>localStorage\<close>: a map from keys to strings, or \<open>None\<close> where
  \<open>typeof window === 'undefined'\<close> and there is no storage.
\<close>

type_synonym Storage = "(string \<rightharpoonup> string) option"

definition removeItem :: "string \<Rightarrow> (string \<rightharpoonup> string) \<Rightarrow> (string \<rightharpoonup> string)" where
  "removeItem k ls = ls(k := None)"

definition handleAuthError :: "Storage \<Rightarrow> 'a Response \<Rightarrow> Storage \<times> (thrown + unit)" where
  "handleAuthError st resp =
     (if status resp = 401 then
        (map_option (\<lambda>ls. removeItem ''user'' (removeItem ''auth_token'' ls)) st,
         Inl (AuthenticationError ''Authentication failed. Please login again.''))
      else (st, Inr ()))"

definition api_healthCheck :: "Backend \<Rightarrow> thrown + HealthResponse" where
  "api_healthCheck net =
     (case GET_health net of
        Inl e \<Rightarrow> Inl e
      | Inr resp \<Rightarrow>
          if \<not> ok resp then Inl (Error (''Health check failed: '' @ statusText resp))
          else json resp)"

definition api_query ::
  "Backend \<Rightarrow> Storage \<Rightarrow> QueryRequest \<Rightarrow> bool \<Rightarrow> Storage \<times> (thrown + QueryResponse)" where
  "api_query net st request useWebSearch =
     (let endpoint = (if useWebSearch then POST_query_combined net else POST_query net) in
      case endpoint request of
        Inl e \<Rightarrow> (st, Inl e)
      | Inr resp \<Rightarrow>
          (case handleAuthError st resp of
             (st', Inl e) \<Rightarrow> (st', Inl e)
           | (st', Inr _) \<Rightarrow>
               if \<not> ok resp then (st', Inl (Error (''Query failed: '' @ statusText resp)))
               else (st', json resp)))"

definition api_queryEnhanced ::
  "Backend \<Rightarrow> Storage \<Rightarrow> QueryRequest \<Rightarrow> Storage \<times> (thrown + LocalQueryResponse)" where
  "api_queryEnhanced net st request =
     (case POST_query_local net request of
        Inl e \<Rightarrow> (st, Inl e)
      | Inr resp \<Rightarrow>
          (case handleAuthError st resp of
             (st', Inl e) \<Rightarrow> (st', Inl e)
           | (st', Inr _) \<Rightarrow>
               if \<not> ok resp
               then (st', Inl (Error (''Enhanced query failed: '' @ statusText resp)))
               else (st', json resp)))"

definition api_webSearchExplicit ::
  "Backend \<Rightarrow> Storage \<Rightarrow> WebEnrichmentRequest \<Rightarrow> Storage \<times> (thrown + WebEnrichmentResponse)" where
  "api_webSearchExplicit net st request =
     (case POST_query_web_enrich net request of
        Inl e \<Rightarrow> (st, Inl e)
      | Inr resp \<Rightarrow>
          (case handleAuthError st resp of
             (st', Inl e) \<Rightarrow> (st', Inl e)
           | (st', Inr _) \<Rightarrow>
               if \<not> ok resp
               then (st', Inl (Error (''Web search failed: '' @ statusText resp)))
               else (st', json resp)))"

definition api_getFilters :: "Backend \<Rightarrow> Storage \<Rightarrow> Storage \<times> (thrown + json_record)" where
  "api_getFilters net st =
     (case GET_filters net of
        Inl e \<Rightarrow> (st, Inl e)
      | Inr resp \<Rightarrow>
          (case handleAuthError st resp of
             (st', Inl e) \<Rightarrow> (st', Inl e)
           | (st', Inr _) \<Rightarrow>
               if \<not> ok resp
               then (st', Inl (Error (''Get filters failed: '' @ statusText resp)))
               else (st', json resp)))"

section \<open>Query strategies (services/query-strategies.ts)\<close>

text \<open>
  \<open>Number.prototype.toString\<close> on a non-negative integer below \<open>10^21\<close> (every value of
  \<open>Date.now() + 1\<close> is): its decimal digits.
\<close>

definition digit_char :: "nat \<Rightarrow> char" where
  "digit_char d = char_of (48 + d)"

fun toString :: "nat \<Rightarrow> string" where
  "toString n = (if n < 10 then [digit_char n] else toString (n div 10) @ [digit_char (n mod 10)])"

declare toString.simps [simp del]

definition DEFAULT_TOP_K :: nat where
  "DEFAULT_TOP_K = 5"

definition DEFAULT_WEB_SEARCH_RESULTS :: nat where
  "DEFAULT_WEB_SEARCH_RESULTS = 5"

datatype QueryStrategy = BasicQueryStrategy | CombinedQueryStrategy | EnhancedQueryStrategy

text \<open>
  \<open>execute\<close>, with the two clock readings it takes once the answer is there:
  \<open>now\<close> is \<open>Date.now()\<close> and \<open>date\<close> is \<open>new Date()\<close>.
\<close>

fun execute ::
  "QueryStrategy \<Rightarrow> Backend \<Rightarrow> Storage \<Rightarrow> string \<Rightarrow> nat \<Rightarrow> nat \<Rightarrow> Storage \<times> (thrown + Message)" where
  "execute BasicQueryStrategy net st q now date =
     (case api_query net st \<lparr>query = q, top_k = DEFAULT_TOP_K, filters = None\<rparr> False of
        (st', Inl e) \<Rightarrow> (st', Inl e)
      | (st', Inr r) \<Rightarrow>
          (st', Inr \<lparr>id' = toString (now + 1), type' = assistant, content = response r,
                     timestamp = date, sources = Some (source_nodes r), enhancedResponse = None,
                     webSearchResponse = None, isWebSearchLoading = None,
                     showWebSearchButton = None\<rparr>))"
| "execute CombinedQueryStrategy net st q now date =
     (case api_query net st \<lparr>query = q, top_k = DEFAULT_TOP_K, filters = None\<rparr> True of
        (st', Inl e) \<Rightarrow> (st', Inl e)
      | (st', Inr r) \<Rightarrow>
          (st', Inr \<lparr>id' = toString (now + 1), type' = assistant, content = response r,
                     timestamp = date, sources = Some (source_nodes r), enhancedResponse = None,
                     webSearchResponse = None, isWebSearchLoading = None,
                     showWebSearchButton = None\<rparr>))"
| "execute EnhancedQueryStrategy net st q now date =
     (case api_queryEnhanced net st \<lparr>query = q, top_k = DEFAULT_TOP_K, filters = None\<rparr> of
        (st', Inl e) \<Rightarrow> (st', Inl e)
      | (st', Inr r) \<Rightarrow>
          (st', Inr \<lparr>id' = toString (now + 1), type' = assistant, content = response r,
                     timestamp = date, sources = Some (source_nodes r),
                     enhancedResponse = Some r, webSearchResponse = None,
                     isWebSearchLoading = None,
                     showWebSearchButton = Some (web_search_eligible r)\<rparr>))"

text \<open>
  \<open>QueryStrategyFactory.strategies\<close> is an object literal, so \<open>this.strategies[mode]\<close>
  finds its three own properties and, for any other key, the properties every object
  inherits from \<open>Object.prototype\<close>; each of those is a truthy value that is no strategy.
\<close>

definition strategies :: "(QueryMode \<times> QueryStrategy) list" where
  "strategies =
     [(''basic'', BasicQueryStrategy), (''combined'', CombinedQueryStrategy),
      (''enhanced'', EnhancedQueryStrategy)]"

definition Object_prototype_properties :: "string list" where
  "Object_prototype_properties =
     [''constructor'', ''__defineGetter__'', ''__defineSetter__'', ''hasOwnProperty'',
      ''__lookupGetter__'', ''__lookupSetter__'', ''isPrototypeOf'', ''propertyIsEnumerable'',
      ''toString'', ''valueOf'', ''__proto__'', ''toLocaleString'']"

datatype StrategyValue = Strategy QueryStrategy | InheritedProperty string

definition getStrategy :: "QueryMode \<Rightarrow> thrown + StrategyValue" where
  "getStrategy mode =
     (case map_of strategies mode of
        Some strategy \<Rightarrow> Inr (Strategy strategy)
      | None \<Rightarrow>
          if mode \<in> set Object_prototype_properties then Inr (InheritedProperty mode)
          else Inl (Error (''Unknown query mode: '' @ mode)))"

section \<open>The chat controller (components/chat-interface) and its session\<close>

record User =
  username :: string
  email :: "string option"
  is_active :: bool

text \<open>
  Everything the handlers read and write: the reducer's state, \<open>localStorage\<close>, the
  \<open>AuthProvider\<close>'s token and user, and the handlers suspended at an \<open>await\<close>:
  \<open>pending\<close> is the \<open>handleSubmit\<close> waiting for \<open>strategy.execute(queryText)\<close>,
  \<open>webPending\<close> the \<open>handleWebSearch\<close> calls waiting for \<open>api.webSearchExplicit\<close>
  (each with its \<open>messageId\<close> and request).
\<close>

record World =
  chat :: ChatState
  localStorage :: Storage
  auth_token :: "string option"
  auth_user :: "User option"
  pending :: "(QueryStrategy \<times> string) option"
  webPending :: "(string \<times> WebEnrichmentRequest) list"

definition dispatch :: "World \<Rightarrow> ChatAction \<Rightarrow> World" where
  "dispatch w a = w\<lparr>chat := chatReducer (chat w) a\<rparr>"

text \<open>\<open>String.prototype.trim\<close>: the white space and line terminators below code unit 256.\<close>

definition isWhiteSpace :: "char \<Rightarrow> bool" where
  "isWhiteSpace c = (of_char c \<in> {9, 10, 11, 12, 13, 32, 160 :: nat})"

definition trim :: "string \<Rightarrow> string" where
  "trim s = rev (dropWhile isWhiteSpace (rev (dropWhile isWhiteSpace s)))"

definition logout :: "World \<Rightarrow> World" where
  "logout w =
     w\<lparr>auth_token := None, auth_user := None,
       localStorage :=
         map_option (\<lambda>ls. removeItem ''user'' (removeItem ''auth_token'' ls)) (localStorage w)\<rparr>"

definition checkHealth :: "World \<Rightarrow> Backend \<Rightarrow> World" where
  "checkHealth w net =
     (case api_healthCheck net of
        Inr health \<Rightarrow>
          dispatch w (SET_HEALTH (Some (HealthResponse.status health = healthy \<and> index_loaded health))
                        (Some health))
      | Inl err \<Rightarrow> dispatch w (SET_HEALTH (Some False) None))"

definition instanceof_AuthenticationError :: "thrown \<Rightarrow> bool" where
  "instanceof_AuthenticationError err = (case err of AuthenticationError _ \<Rightarrow> True | _ \<Rightarrow> False)"

text \<open>\<open>err instanceof Error ? err.message : fallback\<close>\<close>

definition message_or :: "thrown \<Rightarrow> string \<Rightarrow> string" where
  "message_or err fallback =
     (case err of AuthenticationError m \<Rightarrow> m | Error m \<Rightarrow> m | NonError \<Rightarrow> fallback)"

text \<open>The \<open>catch\<close> and \<open>finally\<close> blocks of \<open>handleSubmit\<close>.\<close>

definition handleSubmit_catch :: "World \<Rightarrow> thrown \<Rightarrow> World" where
  "handleSubmit_catch w err =
     (if instanceof_AuthenticationError err then dispatch (logout w) (SET_LOADING False)
      else dispatch (dispatch w (SET_ERROR (Some (message_or err ''An error occurred''))))
             (SET_LOADING False))"

text \<open>
  \<open>handleSubmit\<close> up to its \<open>await\<close>; \<open>now\<close> is \<open>Date.now()\<close> and \<open>date\<close> is
  \<open>new Date()\<close>. The \<open>input\<close>, \<open>isLoading\<close> and \<open>queryMode\<close> it reads are those of
  the render in which the event fires, that is, of the current state. A selector that
  throws, or returns a value with no \<open>execute\<close> method (a \<open>TypeError\<close>), is caught at
  once.
\<close>

definition handleSubmit :: "World \<Rightarrow> nat \<Rightarrow> nat \<Rightarrow> World" where
  "handleSubmit w now date =
     (if trim (input (chat w)) = [] \<or> isLoading (chat w) then w
      else
        let userMessage =
              \<lparr>id' = toString now, type' = user, content = trim (input (chat w)),
               timestamp = date, sources = None, enhancedResponse = None,
               webSearchResponse = None, isWebSearchLoading = None,
               showWebSearchButton = None\<rparr>;
            queryText = trim (input (chat w));
            mode = queryMode (chat w);
            w1 = dispatch w (ADD_MESSAGE userMessage);
            w2 = dispatch w1 CLEAR_INPUT;
            w3 = dispatch w2 (SET_LOADING True);
            w4 = dispatch w3 (SET_ERROR None)
        in case getStrategy mode of
             Inl err \<Rightarrow> handleSubmit_catch w4 err
           | Inr (InheritedProperty p) \<Rightarrow>
               handleSubmit_catch w4 (Error ''strategy.execute is not a function'')
           | Inr (Strategy strategy) \<Rightarrow> w4\<lparr>pending := Some (strategy, queryText)\<rparr>)"

text \<open>\<open>handleSubmit\<close> from its \<open>await\<close> on, when the backend's answer is there.\<close>

definition handleSubmit_resumed :: "World \<Rightarrow> Backend \<Rightarrow> nat \<Rightarrow> nat \<Rightarrow> World" where
  "handleSubmit_resumed w net now date =
     (case pending w of
        None \<Rightarrow> w
      | Some (strategy, queryText) \<Rightarrow>
          (case execute strategy net (localStorage w) queryText now date of
             (st', Inr assistantMessage) \<Rightarrow>
               dispatch (dispatch (w\<lparr>localStorage := st', pending := None\<rparr>)
                           (ADD_MESSAGE assistantMessage))
                 (SET_LOADING False)
           | (st', Inl err) \<Rightarrow>
               handleSubmit_catch (w\<lparr>localStorage := st', pending := None\<rparr>) err))"

definition noUpdates :: MessageUpdates where
  "noUpdates =
     \<lparr>upd_id = None, upd_type = None, upd_content = None, upd_timestamp = None,
      upd_sources = None, upd_enhancedResponse = None, upd_webSearchResponse = None,
      upd_isWebSearchLoading = None, upd_showWebSearchButton = None\<rparr>"

text \<open>\<open>s || undefined\<close> for a string or \<open>null\<close>: the empty string is falsy too.\<close>

definition or_undefined :: "string option \<Rightarrow> string option" where
  "or_undefined v = (case v of None \<Rightarrow> None | Some s \<Rightarrow> if s = [] then None else Some s)"

definition webSearchRequest :: "string \<Rightarrow> LocalQueryResponse \<Rightarrow> WebEnrichmentRequest" where
  "webSearchRequest originalQuery er =
     \<lparr>wr_query = originalQuery,
      wr_message_id = or_undefined (message_id er),
      wr_local_context = or_undefined (suggested_search_context er),
      wr_preferred_sources = preferred_sources er,
      wr_keywords = None,
      wr_max_results = Some DEFAULT_WEB_SEARCH_RESULTS,
      wr_concise_mode = Some True\<rparr>"

text \<open>\<open>handleWebSearch\<close> up to its \<open>await\<close>.\<close>

definition handleWebSearch :: "World \<Rightarrow> string \<Rightarrow> string \<Rightarrow> LocalQueryResponse \<Rightarrow> World" where
  "handleWebSearch w messageId originalQuery er =
     (dispatch w (UPDATE_MESSAGE messageId (noUpdates\<lparr>upd_isWebSearchLoading := Some (Some True)\<rparr>)))
       \<lparr>webPending := webPending w @ [(messageId, webSearchRequest originalQuery er)]\<rparr>"

text \<open>
  \<open>handleWebSearch\<close> from its \<open>await\<close> on, for the call with this \<open>messageId\<close> and
  request.
\<close>

definition handleWebSearch_resumed ::
  "World \<Rightarrow> string \<Rightarrow> WebEnrichmentRequest \<Rightarrow> Backend \<Rightarrow> World" where
  "handleWebSearch_resumed w messageId request net =
     (case api_webSearchExplicit net (localStorage w) request of
        (st', Inr webSearchResponse') \<Rightarrow>
          dispatch (w\<lparr>localStorage := st'\<rparr>)
            (UPDATE_MESSAGE messageId
               (noUpdates\<lparr>upd_webSearchResponse := Some (Some webSearchResponse'),
                          upd_isWebSearchLoading := Some (Some False),
                          upd_showWebSearchButton := Some (Some False)\<rparr>))
      | (st', Inl err) \<Rightarrow>
          if instanceof_AuthenticationError err then logout (w\<lparr>localStorage := st'\<rparr>)
          else dispatch
                 (dispatch (w\<lparr>localStorage := st'\<rparr>)
                    (SET_ERROR (Some (''Web search failed: '' @ message_or err ''Unknown error''))))
                 (UPDATE_MESSAGE messageId (noUpdates\<lparr>upd_isWebSearchLoading := Some (Some False)\<rparr>)))"

section \<open>What the page offers (chat-interface form, message-item)\<close>

text \<open>The \<open>disabled\<close> expressions of the input and of the submit button.\<close>

definition inputDisabled :: "ChatState \<Rightarrow> bool" where
  "inputDisabled state = (isLoading state \<or> isHealthy state = Some False)"

definition submitDisabled :: "ChatState \<Rightarrow> bool" where
  "submitDisabled state =
     (trim (input state) = [] \<or> isLoading state \<or> isHealthy state = Some False)"

text \<open>
  A submission of the form. A form whose submit button is disabled is not submitted, by a
  click or by the Enter key, so \<open>handleSubmit\<close> runs only when the button is enabled.
\<close>

definition formSubmit :: "World \<Rightarrow> nat \<Rightarrow> nat \<Rightarrow> World" where
  "formSubmit w now date = (if submitDisabled (chat w) then w else handleSubmit w now date)"

text \<open>The condition under which \<open>MessageItem\<close> renders the Web Search button.\<close>

definition webSearchButtonShown :: "Message \<Rightarrow> bool" where
  "webSearchButtonShown message =
     (showWebSearchButton message = Some True \<and> enhancedResponse message \<noteq> None \<and>
      webSearchResponse message = None)"

text \<open>
  \<open>handleWebSearchClick\<close> of the message at position \<open>k\<close>: the query is the content of
  the message just before it when that is a user message, and \<open>""\<close> otherwise.
\<close>

definition userQuery :: "Message list \<Rightarrow> nat \<Rightarrow> string" where
  "userQuery msgs k =
     (if 0 < k \<and> type' (msgs ! (k - 1)) = user then content (msgs ! (k - 1)) else [])"

definition handleWebSearchClick :: "World \<Rightarrow> nat \<Rightarrow> World" where
  "handleWebSearchClick w k =
     (let message = messages (chat w) ! k in
      case enhancedResponse message of
        Some er \<Rightarrow> handleWebSearch w (id' message) (userQuery (messages (chat w)) k) er
      | None \<Rightarrow> w)"

text \<open>A click on the Web Search button of the message at position \<open>k\<close>, if it is offered.\<close>

definition webSearchClick :: "World \<Rightarrow> nat \<Rightarrow> World" where
  "webSearchClick w k =
     (if k < length (messages (chat w)) \<and> webSearchButtonShown (messages (chat w) ! k) \<and>
         isWebSearchLoading (messages (chat w) ! k) \<noteq> Some True
      then handleWebSearchClick w k else w)"

section \<open>The orchestration flow as a sequence of events\<close>

datatype Event =
    Change string
  | Submit nat nat
  | QueryAnswered Backend nat nat
  | SelectMode QueryMode
  | WebSearchClicked nat
  | WebSearchAnswered nat Backend
  | DismissError
  | HealthAnswered Backend

text \<open>
  One event of the page: typing into the input (when it is enabled), submitting the form,
  the answer to the pending query, a choice in the mode dropdown (one of its three values),
  a click on a Web Search button, the answer to the \<open>k\<close>-th waiting web search, the
  Dismiss button of the error banner, and the answer to the health check.
\<close>

fun step :: "World \<Rightarrow> Event \<Rightarrow> World" where
  "step w (Change v) = (if inputDisabled (chat w) then w else dispatch w (SET_INPUT v))"
| "step w (Submit now date) = formSubmit w now date"
| "step w (QueryAnswered net now date) = handleSubmit_resumed w net now date"
| "step w (SelectMode mode) =
     (if mode \<in> set [''basic'', ''enhanced'', ''combined''] then dispatch w (SET_QUERY_MODE mode)
      else w)"
| "step w (WebSearchClicked k) = webSearchClick w k"
| "step w (WebSearchAnswered k net) =
     (if k < length (webPending w) then
        (case webPending w ! k of
           (messageId, request) \<Rightarrow>
             handleWebSearch_resumed
               (w\<lparr>webPending := take k (webPending w) @ drop (Suc k) (webPending w)\<rparr>)
               messageId request net)
      else w)"
| "step w DismissError = dispatch w (SET_ERROR None)"
| "step w (HealthAnswered net) = checkHealth w net"

definition run :: "World \<Rightarrow> Event list \<Rightarrow> World" where
  "run w evs = foldl step w evs"

text \<open>The \<open>Date.now()\<close> reading an event takes, if it takes one.\<close>

fun clock :: "Event \<Rightarrow> nat option" where
  "clock (Submit now date) = Some now"
| "clock (QueryAnswered net now date) = Some now"
| "clock _ = None"

definition readings :: "Event list \<Rightarrow> nat list" where
  "readings evs = List.map_filter clock evs"

definition startWorld :: "Storage \<Rightarrow> string option \<Rightarrow> User option \<Rightarrow> World" where
  "startWorld st tok usr =
     \<lparr>chat = initialState, localStorage = st, auth_token = tok, auth_user = usr,
      pending = None, webPending = []\<rparr>"

section \<open>Example values\<close>

definition exampleUserMessage :: Message where
  "exampleUserMessage =
     \<lparr>id' = ''1'', type' = user, content = ''What is X'', timestamp = 1, sources = None,
      enhancedResponse = None, webSearchResponse = None, isWebSearchLoading = None,
      showWebSearchButton = None\<rparr>"

definition exampleLocalResponse :: LocalQueryResponse where
  "exampleLocalResponse =
     \<lparr>response = ''Answer'', source_nodes = [], metadata_context = [],
      web_search_eligible = True, preferred_sources = None, suggested_search_context = None,
      message_id = Some ''m1''\<rparr>"

definition exampleAssistantMessage :: Message where
  "exampleAssistantMessage =
     \<lparr>id' = ''2'', type' = assistant, content = ''Answer'', timestamp = 2, sources = Some [],
      enhancedResponse = Some exampleLocalResponse, webSearchResponse = None,
      isWebSearchLoading = None, showWebSearchButton = Some True\<rparr>"

definition exampleState :: ChatState where
  "exampleState = initialState\<lparr>messages := [exampleUserMessage, exampleAssistantMessage]\<rparr>"

definition loadingTrue :: MessageUpdates where
  "loadingTrue = noUpdates\<lparr>upd_isWebSearchLoading := Some (Some True)\<rparr>"

definition exampleRequest :: QueryRequest where
  "exampleRequest = \<lparr>query = ''What is X'', top_k = DEFAULT_TOP_K, filters = None\<rparr>"

definition ineligibleResponse :: LocalQueryResponse where
  "ineligibleResponse = exampleLocalResponse\<lparr>web_search_eligible := False\<rparr>"

definition exampleWebResponse :: WebEnrichmentResponse where
  "exampleWebResponse =
     \<lparr>synthesized_keywords = [], web_search_results = [], enriched_response = ''Enriched'',
      sources_fetched = 0\<rparr>"

definition unauthorized :: "'a Response" where
  "unauthorized =
     \<lparr>status = 401, statusText = ''Unauthorized'',
      json = Inl (Error ''Unexpected end of JSON input'')\<rparr>"

text \<open>A backend that answers 401 everywhere, one that cannot be reached, and one that
  answers the local query and the web enrichment.\<close>

definition net401 :: Backend where
  "net401 =
     \<lparr>GET_health = Inr unauthorized, POST_query = (\<lambda>_. Inr unauthorized),
      POST_query_combined = (\<lambda>_. Inr unauthorized), POST_query_local = (\<lambda>_. Inr unauthorized),
      POST_query_web_enrich = (\<lambda>_. Inr unauthorized), GET_filters = Inr unauthorized\<rparr>"

definition netDown :: Backend where
  "netDown =
     \<lparr>GET_health = Inl (Error ''Failed to fetch''),
      POST_query = (\<lambda>_. Inl (Error ''Failed to fetch'')),
      POST_query_combined = (\<lambda>_. Inl (Error ''Failed to fetch'')),
      POST_query_local = (\<lambda>_. Inl (Error ''Failed to fetch'')),
      POST_query_web_enrich = (\<lambda>_. Inl (Error ''Failed to fetch'')),
      GET_filters = Inl (Error ''Failed to fetch'')\<rparr>"

definition netUp :: "LocalQueryResponse \<Rightarrow> Backend" where
  "netUp r =
     netDown\<lparr>POST_query_local := (\<lambda>_. Inr \<lparr>status = 200, statusText = ''OK'', json = Inr r\<rparr>),
             POST_query_web_enrich :=
               (\<lambda>_. Inr \<lparr>status = 200, statusText = ''OK'', json = Inr exampleWebResponse\<rparr>)\<rparr>"

definition exampleStorage :: Storage where
  "exampleStorage =
     Some [''auth_token'' \<mapsto> ''t0k'', ''user'' \<mapsto> ''ada'', ''theme'' \<mapsto> ''dark'']"

definition exampleWorld :: World where
  "exampleWorld =
     startWorld exampleStorage (Some ''t0k'')
       (Some \<lparr>username = ''ada'', email = None, is_active = True\<rparr>)"

text \<open>A question has been submitted and waits for its answer; then the answer is there.\<close>

definition waitingWorld :: World where
  "waitingWorld = run exampleWorld [Change ''What is X'', Submit 5 5]"

definition answeredWorld :: World where
  "answeredWorld = run waitingWorld [QueryAnswered (netUp exampleLocalResponse) 9 9]"

text \<open>A run in which the second question is submitted one millisecond after the first
  answer, and the same run followed by a web search on the answer.\<close>

definition collidingEvents :: "Event list" where
  "collidingEvents =
     [Change ''What is X'', Submit 5 5, QueryAnswered (netUp exampleLocalResponse) 6 6,
      Change ''And Y'', Submit 7 7]"

definition collidingWebSearch :: "Event list" where
  "collidingWebSearch =
     collidingEvents @ [WebSearchClicked 1, WebSearchAnswered 0 (netUp exampleLocalResponse)]"

section \<open>Properties of the reducer\<close>

lemma foldl_add_messages:
  "foldl chatReducer s (map ADD_MESSAGE ms) = s\<lparr>messages := messages s @ ms\<rparr>"
  by (induction ms arbitrary: s) simp_all

lemma update_message_absent:
  assumes "i \<notin> id' ` set (messages s)"
  shows "chatReducer s (UPDATE_MESSAGE i u) = s"
proof -
  have "map (\<lambda>msg. if id' msg = i then spread msg u else msg) (messages s) = messages s"
    using assms by (intro map_idI) auto
  then show ?thesis by simp
qed

lemma spread_unnamed:
  "upd_id u = None \<Longrightarrow> id' (spread m u) = id' m"
  "upd_type u = None \<Longrightarrow> type' (spread m u) = type' m"
  "upd_content u = None \<Longrightarrow> content (spread m u) = content m"
  "upd_timestamp u = None \<Longrightarrow> timestamp (spread m u) = timestamp m"
  "upd_sources u = None \<Longrightarrow> sources (spread m u) = sources m"
  "upd_enhancedResponse u = None \<Longrightarrow> enhancedResponse (spread m u) = enhancedResponse m"
  "upd_webSearchResponse u = None \<Longrightarrow> webSearchResponse (spread m u) = webSearchResponse m"
  "upd_isWebSearchLoading u = None \<Longrightarrow> isWebSearchLoading (spread m u) = isWebSearchLoading m"
  "upd_showWebSearchButton u = None \<Longrightarrow> showWebSearchButton (spread m u) = showWebSearchButton m"
  by (simp_all add: spread_def)

lemma spread_named:
  "upd_id u = Some a \<Longrightarrow> id' (spread m u) = a"
  "upd_type u = Some b \<Longrightarrow> type' (spread m u) = b"
  "upd_timestamp u = Some d \<Longrightarrow> timestamp (spread m u) = d"
  by (simp_all add: spread_def)

text \<open>
  C2. \<open>UPDATE_MESSAGE\<close> with an id and a partial record keeps the length of the history;
  a message with another id is the same before and after; a message with that id becomes
  the spread of itself and the record, in which every field the record does not name is
  the same as before; all other components of the state are the same; and when no message
  has that id the state is returned as it was.
\<close>

theorem update_message_frame:
  "length (messages (chatReducer s (UPDATE_MESSAGE i u))) = length (messages s) \<and>
   (\<forall>k < length (messages s).
      (id' (messages s ! k) \<noteq> i \<longrightarrow>
         messages (chatReducer s (UPDATE_MESSAGE i u)) ! k = messages s ! k) \<and>
      (id' (messages s ! k) = i \<longrightarrow>
         messages (chatReducer s (UPDATE_MESSAGE i u)) ! k = spread (messages s ! k) u \<and>
         (upd_id u = None \<longrightarrow> id' (spread (messages s ! k) u) = id' (messages s ! k)) \<and>
         (upd_type u = None \<longrightarrow> type' (spread (messages s ! k) u) = type' (messages s ! k)) \<and>
         (upd_content u = None \<longrightarrow> content (spread (messages s ! k) u) = content (messages s ! k)) \<and>
         (upd_timestamp u = None \<longrightarrow>
            timestamp (spread (messages s ! k) u) = timestamp (messages s ! k)) \<and>
         (upd_sources u = None \<longrightarrow> sources (spread (messages s ! k) u) = sources (messages s ! k)) \<and>
         (upd_enhancedResponse u = None \<longrightarrow>
            enhancedResponse (spread (messages s ! k) u) = enhancedResponse (messages s ! k)) \<and>
         (upd_webSearchResponse u = None \<longrightarrow>
            webSearchResponse (spread (messages s ! k) u) = webSearchResponse (messages s ! k)) \<and>
         (upd_isWebSearchLoading u = None \<longrightarrow>
            isWebSearchLoading (spread (messages s ! k) u) = isWebSearchLoading (messages s ! k)) \<and>
         (upd_showWebSearchButton u = None \<longrightarrow>
            showWebSearchButton (spread (messages s ! k) u) =
              showWebSearchButton (messages s ! k)))) \<and>
   input (chatReducer s (UPDATE_MESSAGE i u)) = input s \<and>
   isLoading (chatReducer s (UPDATE_MESSAGE i u)) = isLoading s \<and>
   error (chatReducer s (UPDATE_MESSAGE i u)) = error s \<and>
   isHealthy (chatReducer s (UPDATE_MESSAGE i u)) = isHealthy s \<and>
   healthDetails (chatReducer s (UPDATE_MESSAGE i u)) = healthDetails s \<and>
   expandedSources (chatReducer s (UPDATE_MESSAGE i u)) = expandedSources s \<and>
   queryMode (chatReducer s (UPDATE_MESSAGE i u)) = queryMode s \<and>
   (i \<notin> id' ` set (messages s) \<longrightarrow> chatReducer s (UPDATE_MESSAGE i u) = s)"
proof -
  have frame: "\<forall>k < length (messages s).
      (id' (messages s ! k) \<noteq> i \<longrightarrow>
         messages (chatReducer s (UPDATE_MESSAGE i u)) ! k = messages s ! k) \<and>
      (id' (messages s ! k) = i \<longrightarrow>
         messages (chatReducer s (UPDATE_MESSAGE i u)) ! k = spread (messages s ! k) u)"
    by simp
  have absent: "i \<notin> id' ` set (messages s) \<longrightarrow> chatReducer s (UPDATE_MESSAGE i u) = s"
    using update_message_absent by blast
  show ?thesis
    using frame absent by (simp add: spread_unnamed)
qed

theorem update_message_frame_witness:
  "messages (chatReducer exampleState (UPDATE_MESSAGE ''2'' loadingTrue)) ! 0 =
     messages exampleState ! 0 \<and>
   isWebSearchLoading (messages (chatReducer exampleState (UPDATE_MESSAGE ''2'' loadingTrue)) ! 1) =
     Some True \<and>
   showWebSearchButton (messages (chatReducer exampleState (UPDATE_MESSAGE ''2'' loadingTrue)) ! 1) =
     showWebSearchButton (messages exampleState ! 1) \<and>
   chatReducer exampleState (UPDATE_MESSAGE ''3'' loadingTrue) = exampleState"
  using update_message_frame [of exampleState "''2''" loadingTrue]
    update_message_frame [of exampleState "''3''" loadingTrue]
  by (simp add: exampleState_def initialState_def noUpdates_def loadingTrue_def spread_def
      exampleUserMessage_def exampleAssistantMessage_def)

text \<open>
  C8. From any state, a sequence of \<open>ADD_MESSAGE\<close> actions yields the old history followed
  by the added messages in the order dispatched, so its length is the old length plus the
  number of additions. Any action that is not an \<open>ADD_MESSAGE\<close> keeps the length of the
  history and, at each position, either the same message or, for an \<open>UPDATE_MESSAGE\<close>
  that targets its id, that message with the record's fields merged in.
\<close>

theorem add_message_append_only:
  "messages (foldl chatReducer s (map ADD_MESSAGE ms)) = messages s @ ms \<and>
   length (messages (foldl chatReducer s (map ADD_MESSAGE ms))) = length (messages s) + length ms \<and>
   (\<forall>a. (\<forall>m. a \<noteq> ADD_MESSAGE m) \<longrightarrow>
      length (messages (chatReducer t a)) = length (messages t) \<and>
      (\<forall>k < length (messages t).
         messages (chatReducer t a) ! k = messages t ! k \<or>
         (\<exists>i u. a = UPDATE_MESSAGE i u \<and> id' (messages t ! k) = i \<and>
            messages (chatReducer t a) ! k = spread (messages t ! k) u)))"
proof (intro conjI allI impI)
  show "messages (foldl chatReducer s (map ADD_MESSAGE ms)) = messages s @ ms"
    by (simp add: foldl_add_messages)
  show "length (messages (foldl chatReducer s (map ADD_MESSAGE ms))) = length (messages s) + length ms"
    by (simp add: foldl_add_messages)
next
  fix a assume "\<forall>m. a \<noteq> ADD_MESSAGE m"
  then show "length (messages (chatReducer t a)) = length (messages t)"
    by (cases a) (simp_all add: Let_def)
next
  fix a k assume na: "\<forall>m. a \<noteq> ADD_MESSAGE m" and k: "k < length (messages t)"
  show "messages (chatReducer t a) ! k = messages t ! k \<or>
         (\<exists>i u. a = UPDATE_MESSAGE i u \<and> id' (messages t ! k) = i \<and>
            messages (chatReducer t a) ! k = spread (messages t ! k) u)"
    using na k by (cases a) (simp_all add: Let_def)
qed

theorem add_message_append_only_witness:
  "messages (foldl chatReducer initialState
       (map ADD_MESSAGE [exampleUserMessage, exampleAssistantMessage])) =
     [exampleUserMessage, exampleAssistantMessage] \<and>
   length (messages (chatReducer exampleState (SET_LOADING True))) = 2 \<and>
   length (messages (chatReducer exampleState (UPDATE_MESSAGE ''2'' loadingTrue))) = 2"
  using add_message_append_only
    [of initialState "[exampleUserMessage, exampleAssistantMessage]" exampleState]
  by (simp add: exampleState_def initialState_def)

text \<open>
  C9. Applying \<open>TOGGLE_SOURCES\<close> with the same id twice gives back the expanded-sources
  set; one application flips the membership of that id only and leaves every other
  component of the state as it was.
\<close>

theorem toggle_sources_twice:
  "expandedSources (chatReducer (chatReducer s (TOGGLE_SOURCES i)) (TOGGLE_SOURCES i)) =
     expandedSources s \<and>
   (\<forall>j. (j \<in> expandedSources (chatReducer s (TOGGLE_SOURCES i))) =
        (if j = i then j \<notin> expandedSources s else j \<in> expandedSources s)) \<and>
   messages (chatReducer s (TOGGLE_SOURCES i)) = messages s \<and>
   input (chatReducer s (TOGGLE_SOURCES i)) = input s \<and>
   isLoading (chatReducer s (TOGGLE_SOURCES i)) = isLoading s \<and>
   error (chatReducer s (TOGGLE_SOURCES i)) = error s \<and>
   isHealthy (chatReducer s (TOGGLE_SOURCES i)) = isHealthy s \<and>
   healthDetails (chatReducer s (TOGGLE_SOURCES i)) = healthDetails s \<and>
   queryMode (chatReducer s (TOGGLE_SOURCES i)) = queryMode s"
  by (auto simp: Let_def)

theorem toggle_sources_twice_witness:
  "expandedSources (chatReducer initialState (TOGGLE_SOURCES ''2'')) = {''2''} \<and>
   expandedSources (chatReducer (chatReducer initialState (TOGGLE_SOURCES ''2''))
       (TOGGLE_SOURCES ''2'')) = {}"
  using toggle_sources_twice [of initialState "''2''"]
  by (simp add: initialState_def)

text \<open>
  The \<open>default\<close> branch: for an action whose type is none of the nine the reducer returns
  the state it was given.
\<close>

lemma chatReducer_default_branch:
  "action_type a \<notin> set recognized_action_types \<Longrightarrow> chatReducer s a = s"
  by (cases a) (simp_all add: recognized_action_types_def)

text \<open>
  C10. The reducer has no failing branch, and its \<open>default\<close> branch is silent (the lemma
  above). The strategy selector is meant to fail on an unknown mode, and for the mode
  \<open>hybrid\<close> it throws \<open>Unknown query mode: hybrid\<close>. For the mode \<open>toString\<close>, which is
  none of its three modes either, it does not: the lookup finds the method every object
  inherits, which is truthy, so the guard lets it through and the selector returns a value
  that is no strategy.
\<close>

theorem getStrategy_inherited_property:
  "''hybrid'' \<notin> set (map fst strategies) \<and>
   getStrategy ''hybrid'' = Inl (Error ''Unknown query mode: hybrid'') \<and>
   ''toString'' \<notin> set (map fst strategies) \<and>
   getStrategy ''toString'' = Inr (InheritedProperty ''toString'') \<and>
   chatReducer exampleState (OTHER_ACTION ''CLEAR_MESSAGES'') = exampleState"
  by (simp add: getStrategy_def strategies_def Object_prototype_properties_def)

section \<open>Properties of the API client and of the handlers\<close>

lemma handleAuthError_401:
  "status r = 401 \<Longrightarrow>
   handleAuthError st r =
     (map_option (\<lambda>ls. ls(''auth_token'' := None, ''user'' := None)) st,
      Inl (AuthenticationError ''Authentication failed. Please login again.''))"
  by (simp add: handleAuthError_def removeItem_def)

lemma execute_message:
  "execute strategy net st q now date = (st', Inr m) \<Longrightarrow>
   id' m = toString (now + 1) \<and> type' m = assistant"
  by (cases strategy) (auto split: prod.splits sum.splits)

lemma spread_loading:
  "spread m (noUpdates\<lparr>upd_isWebSearchLoading := Some (Some b)\<rparr>) = m\<lparr>isWebSearchLoading := Some b\<rparr>"
  by (simp add: spread_def noUpdates_def)

lemma spread_done:
  "spread m (noUpdates\<lparr>upd_webSearchResponse := Some (Some r),
                       upd_isWebSearchLoading := Some (Some False),
                       upd_showWebSearchButton := Some (Some False)\<rparr>) =
   m\<lparr>webSearchResponse := Some r, isWebSearchLoading := Some False, showWebSearchButton := Some False\<rparr>"
  by (simp add: spread_def noUpdates_def)

text \<open>
  C1. Each protected call (\<open>query\<close>, \<open>queryEnhanced\<close>, \<open>webSearchExplicit\<close>,
  \<open>getFilters\<close>) that is answered with status 401 removes \<open>auth_token\<close> and \<open>user\<close>
  from the storage and throws the \<open>AuthenticationError\<close>. When that error reaches
  \<open>handleSubmit\<close> or \<open>handleWebSearch\<close>, the handler logs out (token and user are
  cleared, in memory and in the storage) and leaves the error banner as it was; no
  message is appended.
\<close>

theorem unauthorized_discards_session:
  "(\<forall>r. (if useWebSearch then POST_query_combined net else POST_query net) req = Inr r \<and>
        status r = 401 \<longrightarrow>
        api_query net st req useWebSearch =
          (map_option (\<lambda>ls. ls(''auth_token'' := None, ''user'' := None)) st,
           Inl (AuthenticationError ''Authentication failed. Please login again.''))) \<and>
   (\<forall>r. POST_query_local net req = Inr r \<and> status r = 401 \<longrightarrow>
        api_queryEnhanced net st req =
          (map_option (\<lambda>ls. ls(''auth_token'' := None, ''user'' := None)) st,
           Inl (AuthenticationError ''Authentication failed. Please login again.''))) \<and>
   (\<forall>r. POST_query_web_enrich net wreq = Inr r \<and> status r = 401 \<longrightarrow>
        api_webSearchExplicit net st wreq =
          (map_option (\<lambda>ls. ls(''auth_token'' := None, ''user'' := None)) st,
           Inl (AuthenticationError ''Authentication failed. Please login again.''))) \<and>
   (\<forall>r. GET_filters net = Inr r \<and> status r = 401 \<longrightarrow>
        api_getFilters net st =
          (map_option (\<lambda>ls. ls(''auth_token'' := None, ''user'' := None)) st,
           Inl (AuthenticationError ''Authentication failed. Please login again.''))) \<and>
   (\<forall>st' m. pending w = Some (strategy, q) \<and>
        execute strategy net (localStorage w) q now date = (st', Inl (AuthenticationError m)) \<longrightarrow>
        auth_token (handleSubmit_resumed w net now date) = None \<and>
        auth_user (handleSubmit_resumed w net now date) = None \<and>
        localStorage (handleSubmit_resumed w net now date) =
          map_option (\<lambda>ls. ls(''auth_token'' := None, ''user'' := None)) st' \<and>
        error (chat (handleSubmit_resumed w net now date)) = error (chat w) \<and>
        messages (chat (handleSubmit_resumed w net now date)) = messages (chat w)) \<and>
   (\<forall>st' m. api_webSearchExplicit net (localStorage w) wreq = (st', Inl (AuthenticationError m)) \<longrightarrow>
        auth_token (handleWebSearch_resumed w messageId wreq net) = None \<and>
        auth_user (handleWebSearch_resumed w messageId wreq net) = None \<and>
        localStorage (handleWebSearch_resumed w messageId wreq net) =
          map_option (\<lambda>ls. ls(''auth_token'' := None, ''user'' := None)) st' \<and>
        chat (handleWebSearch_resumed w messageId wreq net) = chat w)"
proof (intro conjI allI impI)
  fix r :: "QueryResponse Response"
  assume "(if useWebSearch then POST_query_combined net else POST_query net) req = Inr r \<and>
        status r = 401"
  then show "api_query net st req useWebSearch =
          (map_option (\<lambda>ls. ls(''auth_token'' := None, ''user'' := None)) st,
           Inl (AuthenticationError ''Authentication failed. Please login again.''))"
    by (simp add: api_query_def handleAuthError_401 split: if_splits)
next
  fix r :: "LocalQueryResponse Response"
  assume "POST_query_local net req = Inr r \<and> status r = 401"
  then show "api_queryEnhanced net st req =
          (map_option (\<lambda>ls. ls(''auth_token'' := None, ''user'' := None)) st,
           Inl (AuthenticationError ''Authentication failed. Please login again.''))"
    by (simp add: api_queryEnhanced_def handleAuthError_401)
next
  fix r :: "WebEnrichmentResponse Response"
  assume "POST_query_web_enrich net wreq = Inr r \<and> status r = 401"
  then show "api_webSearchExplicit net st wreq =
          (map_option (\<lambda>ls. ls(''auth_token'' := None, ''user'' := None)) st,
           Inl (AuthenticationError ''Authentication failed. Please login again.''))"
    by (simp add: api_webSearchExplicit_def handleAuthError_401)
next
  fix r :: "json_record Response"
  assume "GET_filters net = Inr r \<and> status r = 401"
  then show "api_getFilters net st =
          (map_option (\<lambda>ls. ls(''auth_token'' := None, ''user'' := None)) st,
           Inl (AuthenticationError ''Authentication failed. Please login again.''))"
    by (simp add: api_getFilters_def handleAuthError_401)
next
  fix st' m
  assume a: "pending w = Some (strategy, q) \<and>
        execute strategy net (localStorage w) q now date = (st', Inl (AuthenticationError m))"
  then have r: "handleSubmit_resumed w net now date =
      dispatch (logout (w\<lparr>localStorage := st', pending := None\<rparr>)) (SET_LOADING False)"
    by (simp add: handleSubmit_resumed_def handleSubmit_catch_def instanceof_AuthenticationError_def)
  show "auth_token (handleSubmit_resumed w net now date) = None"
    by (simp add: r dispatch_def logout_def)
  show "auth_user (handleSubmit_resumed w net now date) = None"
    by (simp add: r dispatch_def logout_def)
  show "localStorage (handleSubmit_resumed w net now date) =
          map_option (\<lambda>ls. ls(''auth_token'' := None, ''user'' := None)) st'"
    by (simp add: r dispatch_def logout_def removeItem_def)
  show "error (chat (handleSubmit_resumed w net now date)) = error (chat w)"
    by (simp add: r dispatch_def logout_def)
  show "messages (chat (handleSubmit_resumed w net now date)) = messages (chat w)"
    by (simp add: r dispatch_def logout_def)
next
  fix st' m
  assume a: "api_webSearchExplicit net (localStorage w) wreq = (st', Inl (AuthenticationError m))"
  then have r: "handleWebSearch_resumed w messageId wreq net = logout (w\<lparr>localStorage := st'\<rparr>)"
    by (simp add: handleWebSearch_resumed_def instanceof_AuthenticationError_def)
  show "auth_token (handleWebSearch_resumed w messageId wreq net) = None"
    by (simp add: r logout_def)
  show "auth_user (handleWebSearch_resumed w messageId wreq net) = None"
    by (simp add: r logout_def)
  show "localStorage (handleWebSearch_resumed w messageId wreq net) =
          map_option (\<lambda>ls. ls(''auth_token'' := None, ''user'' := None)) st'"
    by (simp add: r logout_def removeItem_def)
  show "chat (handleWebSearch_resumed w messageId wreq net) = chat w"
    by (simp add: r logout_def)
qed

theorem unauthorized_discards_session_witness:
  "POST_query_combined net401 exampleRequest = Inr unauthorized \<and>
   status (unauthorized :: QueryResponse Response) = 401 \<and>
   snd (api_query net401 exampleStorage exampleRequest True) =
     Inl (AuthenticationError ''Authentication failed. Please login again.'') \<and>
   map_option (\<lambda>ls. (ls ''auth_token'', ls ''user'', ls ''theme''))
     (fst (api_query net401 exampleStorage exampleRequest True)) =
     Some (None, None, Some ''dark'') \<and>
   pending waitingWorld = Some (EnhancedQueryStrategy, ''What is X'') \<and>
   auth_token waitingWorld = Some ''t0k'' \<and>
   auth_token (handleSubmit_resumed waitingWorld net401 9 9) = None \<and>
   auth_user (handleSubmit_resumed waitingWorld net401 9 9) = None \<and>
   error (chat (handleSubmit_resumed waitingWorld net401 9 9)) = error (chat waitingWorld) \<and>
   messages (chat (handleSubmit_resumed waitingWorld net401 9 9)) = messages (chat waitingWorld)"
proof -
  note t = unauthorized_discards_session
    [where useWebSearch = True and net = net401 and req = exampleRequest and st = exampleStorage
       and w = waitingWorld and strategy = EnhancedQueryStrategy and q = "''What is X''"
       and now = 9 and date = 9]
  have h1: "(if True then POST_query_combined net401 else POST_query net401) exampleRequest =
      Inr unauthorized \<and> status (unauthorized :: QueryResponse Response) = 401"
    by (simp add: net401_def unauthorized_def)
  have c1: "api_query net401 exampleStorage exampleRequest True =
      (map_option (\<lambda>ls. ls(''auth_token'' := None, ''user'' := None)) exampleStorage,
       Inl (AuthenticationError ''Authentication failed. Please login again.''))"
    using t h1 by blast
  have h2: "pending waitingWorld = Some (EnhancedQueryStrategy, ''What is X'')"
    by code_simp
  have h3: "execute EnhancedQueryStrategy net401 (localStorage waitingWorld) ''What is X'' 9 9 =
      (map_option (\<lambda>ls. ls(''auth_token'' := None, ''user'' := None)) (localStorage waitingWorld),
       Inl (AuthenticationError ''Authentication failed. Please login again.''))"
    by (simp add: api_queryEnhanced_def net401_def unauthorized_def handleAuthError_401)
  have c5: "auth_token (handleSubmit_resumed waitingWorld net401 9 9) = None \<and>
        auth_user (handleSubmit_resumed waitingWorld net401 9 9) = None \<and>
        error (chat (handleSubmit_resumed waitingWorld net401 9 9)) = error (chat waitingWorld) \<and>
        messages (chat (handleSubmit_resumed waitingWorld net401 9 9)) =
          messages (chat waitingWorld)"
    using t h2 h3 by blast
  have h4: "auth_token waitingWorld = Some ''t0k''"
    by code_simp
  show ?thesis
    using h1 c1 h2 h4 c5 by (simp add: exampleStorage_def)
qed

text \<open>
  C3. For a message of the history with the given id: \<open>handleWebSearch\<close> first sets its
  \<open>isWebSearchLoading\<close> to true and nothing else. When the call succeeds the handler
  stores the result in that message, sets \<open>isWebSearchLoading\<close> and
  \<open>showWebSearchButton\<close> to false and leaves the error as it was. When it fails with
  anything but an \<open>AuthenticationError\<close> the handler sets the error to
  \<open>Web search failed:\<close> and the message text and sets only \<open>isWebSearchLoading\<close> of
  that message to false, so \<open>showWebSearchButton\<close> is what it was. Messages with
  another id are never changed. (The state is the one the handler finds when it runs.)
\<close>

theorem web_search_flow:
  assumes "k < length (messages (chat w))" and "id' (messages (chat w) ! k) = messageId"
  shows
  "messages (chat (handleWebSearch w messageId originalQuery er)) ! k =
     (messages (chat w) ! k)\<lparr>isWebSearchLoading := Some True\<rparr> \<and>
   (\<forall>j < length (messages (chat w)). id' (messages (chat w) ! j) \<noteq> messageId \<longrightarrow>
      messages (chat (handleWebSearch w messageId originalQuery er)) ! j = messages (chat w) ! j) \<and>
   (\<forall>st' r. api_webSearchExplicit net (localStorage w) request = (st', Inr r) \<longrightarrow>
      messages (chat (handleWebSearch_resumed w messageId request net)) ! k =
        (messages (chat w) ! k)\<lparr>webSearchResponse := Some r, isWebSearchLoading := Some False,
                                 showWebSearchButton := Some False\<rparr> \<and>
      error (chat (handleWebSearch_resumed w messageId request net)) = error (chat w) \<and>
      (\<forall>j < length (messages (chat w)). id' (messages (chat w) ! j) \<noteq> messageId \<longrightarrow>
         messages (chat (handleWebSearch_resumed w messageId request net)) ! j =
           messages (chat w) ! j)) \<and>
   (\<forall>st' err. api_webSearchExplicit net (localStorage w) request = (st', Inl err) \<and>
        \<not> instanceof_AuthenticationError err \<longrightarrow>
      error (chat (handleWebSearch_resumed w messageId request net)) =
        Some (''Web search failed: '' @ message_or err ''Unknown error'') \<and>
      messages (chat (handleWebSearch_resumed w messageId request net)) ! k =
        (messages (chat w) ! k)\<lparr>isWebSearchLoading := Some False\<rparr> \<and>
      showWebSearchButton (messages (chat (handleWebSearch_resumed w messageId request net)) ! k) =
        showWebSearchButton (messages (chat w) ! k) \<and>
      (\<forall>j < length (messages (chat w)). id' (messages (chat w) ! j) \<noteq> messageId \<longrightarrow>
         messages (chat (handleWebSearch_resumed w messageId request net)) ! j =
           messages (chat w) ! j))"
proof (intro conjI allI impI)
  show "messages (chat (handleWebSearch w messageId originalQuery er)) ! k =
     (messages (chat w) ! k)\<lparr>isWebSearchLoading := Some True\<rparr>"
    using assms by (simp add: handleWebSearch_def dispatch_def spread_loading)
next
  fix j assume "j < length (messages (chat w))" "id' (messages (chat w) ! j) \<noteq> messageId"
  then show "messages (chat (handleWebSearch w messageId originalQuery er)) ! j = messages (chat w) ! j"
    by (simp add: handleWebSearch_def dispatch_def)
next
  fix st' r
  assume a: "api_webSearchExplicit net (localStorage w) request = (st', Inr r)"
  show "messages (chat (handleWebSearch_resumed w messageId request net)) ! k =
        (messages (chat w) ! k)\<lparr>webSearchResponse := Some r, isWebSearchLoading := Some False,
                                 showWebSearchButton := Some False\<rparr>"
    using assms a by (simp add: handleWebSearch_resumed_def dispatch_def spread_done)
  show "error (chat (handleWebSearch_resumed w messageId request net)) = error (chat w)"
    using a by (simp add: handleWebSearch_resumed_def dispatch_def)
  fix j assume "j < length (messages (chat w))" "id' (messages (chat w) ! j) \<noteq> messageId"
  then show "messages (chat (handleWebSearch_resumed w messageId request net)) ! j =
           messages (chat w) ! j"
    using a by (simp add: handleWebSearch_resumed_def dispatch_def)
next
  fix st' err
  assume a: "api_webSearchExplicit net (localStorage w) request = (st', Inl err) \<and>
        \<not> instanceof_AuthenticationError err"
  show "error (chat (handleWebSearch_resumed w messageId request net)) =
        Some (''Web search failed: '' @ message_or err ''Unknown error'')"
    using a by (simp add: handleWebSearch_resumed_def dispatch_def)
  show m: "messages (chat (handleWebSearch_resumed w messageId request net)) ! k =
        (messages (chat w) ! k)\<lparr>isWebSearchLoading := Some False\<rparr>"
    using assms a by (simp add: handleWebSearch_resumed_def dispatch_def spread_loading)
  show "showWebSearchButton (messages (chat (handleWebSearch_resumed w messageId request net)) ! k) =
        showWebSearchButton (messages (chat w) ! k)"
    by (simp add: m)
  fix j assume "j < length (messages (chat w))" "id' (messages (chat w) ! j) \<noteq> messageId"
  then show "messages (chat (handleWebSearch_resumed w messageId request net)) ! j =
           messages (chat w) ! j"
    using a by (simp add: handleWebSearch_resumed_def dispatch_def)
qed

theorem web_search_flow_witness:
  "1 < length (messages (chat answeredWorld)) \<and>
   id' (messages (chat answeredWorld) ! 1) = ''10'' \<and>
   showWebSearchButton (messages (chat answeredWorld) ! 1) = Some True \<and>
   messages (chat (handleWebSearch answeredWorld ''10'' ''What is X'' exampleLocalResponse)) ! 1 =
     (messages (chat answeredWorld) ! 1)\<lparr>isWebSearchLoading := Some True\<rparr> \<and>
   messages (chat (handleWebSearch_resumed answeredWorld ''10''
       (webSearchRequest ''What is X'' exampleLocalResponse) (netUp exampleLocalResponse))) ! 1 =
     (messages (chat answeredWorld) ! 1)
       \<lparr>webSearchResponse := Some exampleWebResponse, isWebSearchLoading := Some False,
        showWebSearchButton := Some False\<rparr> \<and>
   error (chat (handleWebSearch_resumed answeredWorld ''10''
       (webSearchRequest ''What is X'' exampleLocalResponse) netDown)) =
     Some ''Web search failed: Failed to fetch'' \<and>
   isWebSearchLoading (messages (chat (handleWebSearch_resumed answeredWorld ''10''
       (webSearchRequest ''What is X'' exampleLocalResponse) netDown)) ! 1) = Some False \<and>
   showWebSearchButton (messages (chat (handleWebSearch_resumed answeredWorld ''10''
       (webSearchRequest ''What is X'' exampleLocalResponse) netDown)) ! 1) = Some True"
proof -
  have h1: "1 < length (messages (chat answeredWorld))"
    by code_simp
  have h2: "id' (messages (chat answeredWorld) ! 1) = ''10''"
    by code_simp
  have h3: "showWebSearchButton (messages (chat answeredWorld) ! 1) = Some True"
    by code_simp
  have up: "api_webSearchExplicit (netUp exampleLocalResponse) (localStorage answeredWorld)
      (webSearchRequest ''What is X'' exampleLocalResponse) =
      (localStorage answeredWorld, Inr exampleWebResponse)"
    by (simp add: api_webSearchExplicit_def netUp_def handleAuthError_def ok_def)
  have down: "api_webSearchExplicit netDown (localStorage answeredWorld)
      (webSearchRequest ''What is X'' exampleLocalResponse) =
      (localStorage answeredWorld, Inl (Error ''Failed to fetch'')) \<and>
      \<not> instanceof_AuthenticationError (Error ''Failed to fetch'')"
    by (simp add: api_webSearchExplicit_def netDown_def instanceof_AuthenticationError_def)
  note ok = web_search_flow [OF h1 h2, where net = "netUp exampleLocalResponse"
      and request = "webSearchRequest ''What is X'' exampleLocalResponse"
      and originalQuery = "''What is X''" and er = exampleLocalResponse]
  note ko = web_search_flow [OF h1 h2, where net = netDown
      and request = "webSearchRequest ''What is X'' exampleLocalResponse"]
  have c1: "messages (chat (handleWebSearch answeredWorld ''10'' ''What is X'' exampleLocalResponse)) ! 1 =
     (messages (chat answeredWorld) ! 1)\<lparr>isWebSearchLoading := Some True\<rparr>"
    using ok by blast
  have c2: "messages (chat (handleWebSearch_resumed answeredWorld ''10''
       (webSearchRequest ''What is X'' exampleLocalResponse) (netUp exampleLocalResponse))) ! 1 =
     (messages (chat answeredWorld) ! 1)
       \<lparr>webSearchResponse := Some exampleWebResponse, isWebSearchLoading := Some False,
        showWebSearchButton := Some False\<rparr>"
    using ok up by blast
  have c3: "error (chat (handleWebSearch_resumed answeredWorld ''10''
       (webSearchRequest ''What is X'' exampleLocalResponse) netDown)) =
       Some (''Web search failed: '' @ message_or (Error ''Failed to fetch'') ''Unknown error'') \<and>
     messages (chat (handleWebSearch_resumed answeredWorld ''10''
       (webSearchRequest ''What is X'' exampleLocalResponse) netDown)) ! 1 =
       (messages (chat answeredWorld) ! 1)\<lparr>isWebSearchLoading := Some False\<rparr>"
    using ko down by blast
  show ?thesis
    using h1 h2 h3 c1 c2 c3 by (simp add: message_or_def)
qed

section \<open>Properties of the flow\<close>

lemma handleSubmit_guard:
  "trim (input (chat w)) = [] \<or> isLoading (chat w) \<Longrightarrow> handleSubmit w now date = w"
  by (simp add: handleSubmit_def)

lemma formSubmit_guard:
  "trim (input (chat w)) = [] \<or> isLoading (chat w) \<or> isHealthy (chat w) = Some False \<Longrightarrow>
   formSubmit w now date = w"
  by (auto simp add: formSubmit_def submitDisabled_def)

lemma handleSubmit_pending:
  "pending (handleSubmit w now date) \<noteq> pending w \<Longrightarrow> isLoading (chat (handleSubmit w now date))"
  by (auto simp add: handleSubmit_def Let_def dispatch_def handleSubmit_catch_def logout_def
      instanceof_AuthenticationError_def split: if_splits sum.splits StrategyValue.splits)

lemma formSubmit_pending:
  "pending (formSubmit w now date) \<noteq> pending w \<Longrightarrow> isLoading (chat (formSubmit w now date))"
  by (auto simp add: formSubmit_def handleSubmit_pending split: if_splits)

lemma step_while_loading:
  assumes "isLoading (chat w)" and "\<forall>net now date. e \<noteq> QueryAnswered net now date"
  shows "isLoading (chat (step w e)) \<and> pending (step w e) = pending w \<and>
         length (messages (chat (step w e))) = length (messages (chat w))"
proof (cases e)
  case (Change v)
  then show ?thesis using assms by (simp add: inputDisabled_def)
next
  case (Submit now date)
  then show ?thesis using assms by (simp add: formSubmit_guard)
next
  case (QueryAnswered net now date)
  then show ?thesis using assms by simp
next
  case (SelectMode mode)
  then show ?thesis using assms by (simp add: dispatch_def)
next
  case (WebSearchClicked k)
  then show ?thesis using assms
    by (simp add: webSearchClick_def handleWebSearchClick_def handleWebSearch_def dispatch_def
        Let_def split: option.splits)
next
  case (WebSearchAnswered k net)
  then show ?thesis using assms
    by (simp add: handleWebSearch_resumed_def dispatch_def logout_def
        split: prod.splits sum.splits)
next
  case DismissError
  then show ?thesis using assms by (simp add: dispatch_def)
next
  case (HealthAnswered net)
  then show ?thesis using assms by (simp add: checkHealth_def dispatch_def split: sum.splits)
qed

lemma run_snoc: "run w (evs @ [e]) = step (run w evs) e"
  by (simp add: run_def)

lemma run_while_loading:
  assumes "isLoading (chat w)"
    and "\<forall>e \<in> set evs. \<forall>net now date. e \<noteq> QueryAnswered net now date"
  shows "isLoading (chat (run w evs)) \<and> pending (run w evs) = pending w \<and>
         length (messages (chat (run w evs))) = length (messages (chat w))"
  using assms(2)
proof (induction evs rule: rev_induct)
  case Nil
  then show ?case using assms(1) by (simp add: run_def)
next
  case (snoc e evs)
  then have ih: "isLoading (chat (run w evs)) \<and> pending (run w evs) = pending w \<and>
         length (messages (chat (run w evs))) = length (messages (chat w))" by simp
  have e: "\<forall>net now date. e \<noteq> QueryAnswered net now date" using snoc.prems by simp
  show ?case using step_while_loading [of "run w evs" e] ih e by (simp add: run_snoc)
qed

lemma step_pending_loading:
  "(pending w \<noteq> None) = isLoading (chat w) \<Longrightarrow>
   (pending (step w e) \<noteq> None) = isLoading (chat (step w e))"
  by (cases e)
    (auto simp add: dispatch_def formSubmit_def handleSubmit_def Let_def handleSubmit_catch_def
      logout_def handleSubmit_resumed_def webSearchClick_def handleWebSearchClick_def
      handleWebSearch_def handleWebSearch_resumed_def checkHealth_def submitDisabled_def
      split: sum.splits StrategyValue.splits option.splits prod.splits if_splits)

lemma run_pending_loading:
  "(pending (run (startWorld st tok usr) evs) \<noteq> None) =
     isLoading (chat (run (startWorld st tok usr) evs))"
proof (induction evs rule: rev_induct)
  case Nil
  then show ?case by (simp add: run_def startWorld_def initialState_def)
next
  case (snoc e evs)
  show ?case using step_pending_loading [OF snoc.IH, of e] by (simp add: run_snoc)
qed

text \<open>
  C7. \<open>handleSubmit\<close> returns at once, with nothing changed, when the trimmed input is
  empty or \<open>isLoading\<close> is true; the form does not even call it when, besides, the health
  check has set \<open>isHealthy\<close> to false (the submit button is disabled then; the handler
  itself does not test \<open>isHealthy\<close>). So in these three cases a submission appends no
  message and invokes no strategy. A submission that does invoke a strategy leaves
  \<open>isLoading\<close> true, and from a state where \<open>isLoading\<close> is true no sequence of events
  other than the answer to the query changes the number of messages or the pending call:
  a second submit before the answer adds no second user message. In every state reachable
  from the start a query is pending exactly when \<open>isLoading\<close> is true.
\<close>

theorem submission_guarded:
  "(trim (input (chat w)) = [] \<or> isLoading (chat w) \<longrightarrow> handleSubmit w now date = w) \<and>
   (trim (input (chat w)) = [] \<or> isLoading (chat w) \<or> isHealthy (chat w) = Some False \<longrightarrow>
      step w (Submit now date) = w) \<and>
   (pending (step w (Submit now date)) \<noteq> pending w \<longrightarrow>
      isLoading (chat (step w (Submit now date)))) \<and>
   (isLoading (chat w) \<and> (\<forall>e \<in> set evs. \<forall>net n d. e \<noteq> QueryAnswered net n d) \<longrightarrow>
      isLoading (chat (run w evs)) \<and> pending (run w evs) = pending w \<and>
      length (messages (chat (run w evs))) = length (messages (chat w))) \<and>
   (pending (run (startWorld st tok usr) evs) \<noteq> None) =
      isLoading (chat (run (startWorld st tok usr) evs))"
proof (intro conjI impI)
  assume "trim (input (chat w)) = [] \<or> isLoading (chat w)"
  then show "handleSubmit w now date = w" by (rule handleSubmit_guard)
next
  assume "trim (input (chat w)) = [] \<or> isLoading (chat w) \<or> isHealthy (chat w) = Some False"
  then show "step w (Submit now date) = w" by (simp add: formSubmit_guard)
next
  assume "pending (step w (Submit now date)) \<noteq> pending w"
  then show "isLoading (chat (step w (Submit now date)))" by (simp add: formSubmit_pending)
next
  assume a: "isLoading (chat w) \<and> (\<forall>e \<in> set evs. \<forall>net n d. e \<noteq> QueryAnswered net n d)"
  then show "isLoading (chat (run w evs))" using run_while_loading [of w evs] by blast
  show "pending (run w evs) = pending w" using a run_while_loading [of w evs] by blast
  show "length (messages (chat (run w evs))) = length (messages (chat w))"
    using a run_while_loading [of w evs] by blast
next
  show "(pending (run (startWorld st tok usr) evs) \<noteq> None) =
      isLoading (chat (run (startWorld st tok usr) evs))"
    by (rule run_pending_loading)
qed

theorem submission_guarded_witness:
  "isLoading (chat waitingWorld) \<and>
   length (messages (chat waitingWorld)) = 1 \<and>
   step waitingWorld (Submit 6 6) = waitingWorld \<and>
   length (messages (chat (run waitingWorld
      [Submit 6 6, SelectMode ''basic'', Change ''again'', Submit 7 7, DismissError]))) = 1 \<and>
   trim (input (chat (step exampleWorld (Change [CHR '' '', CHR '' ''])))) = [] \<and>
   step (step exampleWorld (Change [CHR '' '', CHR '' ''])) (Submit 5 5) =
     step exampleWorld (Change [CHR '' '', CHR '' '']) \<and>
   isHealthy (chat (run exampleWorld [Change ''What is X'', HealthAnswered netDown])) = Some False \<and>
   step (run exampleWorld [Change ''What is X'', HealthAnswered netDown]) (Submit 5 5) =
     run exampleWorld [Change ''What is X'', HealthAnswered netDown]"
proof -
  let ?evs = "[Submit 6 6, SelectMode ''basic'', Change ''again'', Submit 7 7, DismissError]"
  let ?blank = "step exampleWorld (Change [CHR '' '', CHR '' ''])"
  let ?down = "run exampleWorld [Change ''What is X'', HealthAnswered netDown]"
  have h1: "isLoading (chat waitingWorld)"
    by code_simp
  have h2: "length (messages (chat waitingWorld)) = 1"
    by code_simp
  have h3: "\<forall>e \<in> set ?evs. \<forall>net n d. e \<noteq> QueryAnswered net n d"
    by simp
  have h4: "trim (input (chat ?blank)) = []"
    by code_simp
  have h5: "isHealthy (chat ?down) = Some False"
    by code_simp
  have c1: "step waitingWorld (Submit 6 6) = waitingWorld"
    using submission_guarded [where w = waitingWorld and now = 6 and date = 6] h1 by blast
  have c2: "length (messages (chat (run waitingWorld ?evs))) = length (messages (chat waitingWorld))"
    using submission_guarded [where w = waitingWorld and evs = ?evs] h1 h3 by blast
  have c3: "step ?blank (Submit 5 5) = ?blank"
    using submission_guarded [where w = ?blank and now = 5 and date = 5] h4 by blast
  have c4: "step ?down (Submit 5 5) = ?down"
    using submission_guarded [where w = ?down and now = 5 and date = 5] h5 by blast
  show ?thesis
    using h1 h2 h4 h5 c1 c2 c3 c4 by simp
qed

text \<open>
  The handler alone does not look at the health status: called on a state with a question
  typed and \<open>isHealthy = false\<close>, it appends the user message.
\<close>

lemma handleSubmit_ignores_health:
  "isHealthy (chat (run exampleWorld [Change ''What is X'', HealthAnswered netDown])) = Some False \<and>
   length (messages (chat (handleSubmit
      (run exampleWorld [Change ''What is X'', HealthAnswered netDown]) 5 5))) = 1"
  by code_simp

text \<open>
  What one event does to the history: nothing, or it appends the user message of a
  submission (id \<open>Date.now()\<close>), or it appends the assistant message of an answer
  (id \<open>Date.now() + 1\<close>), or it merges, into the messages with one id, a record that does
  not name \<open>id\<close>, \<open>type\<close> or \<open>timestamp\<close> and does not set \<open>showWebSearchButton\<close> to
  true.
\<close>

lemma step_messages:
  "messages (chat (step w e)) = messages (chat w) \<or>
   (\<exists>now date m. e = Submit now date \<and>
      messages (chat (step w e)) = messages (chat w) @ [m] \<and> id' m = toString now) \<or>
   (\<exists>net now date m. e = QueryAnswered net now date \<and>
      messages (chat (step w e)) = messages (chat w) @ [m] \<and> id' m = toString (now + 1)) \<or>
   (\<exists>i u. messages (chat (step w e)) =
        map (\<lambda>m. if id' m = i then spread m u else m) (messages (chat w)) \<and>
      upd_id u = None \<and> upd_type u = None \<and> upd_timestamp u = None \<and>
      (upd_showWebSearchButton u = None \<or> upd_showWebSearchButton u = Some (Some False)))"
proof (cases e)
  case (Change v)
  then show ?thesis by (simp add: dispatch_def)
next
  case (Submit now date)
  then show ?thesis
    by (simp add: formSubmit_def handleSubmit_def Let_def dispatch_def handleSubmit_catch_def
        logout_def split: sum.splits StrategyValue.splits)
next
  case (QueryAnswered net now date)
  show ?thesis
  proof (cases "pending w")
    case None
    then show ?thesis using QueryAnswered by (simp add: handleSubmit_resumed_def)
  next
    case (Some p)
    obtain strategy q where p: "p = (strategy, q)" by (cases p)
    obtain st' res where ex: "execute strategy net (localStorage w) q now date = (st', res)"
      by (cases "execute strategy net (localStorage w) q now date")
    show ?thesis
    proof (cases res)
      case (Inl err)
      then show ?thesis using QueryAnswered Some p ex
        by (simp add: handleSubmit_resumed_def handleSubmit_catch_def dispatch_def logout_def)
    next
      case (Inr m)
      then have "id' m = toString (now + 1)" using ex execute_message by blast
      then show ?thesis using QueryAnswered Some p ex Inr
        by (simp add: handleSubmit_resumed_def dispatch_def)
    qed
  qed
next
  case (SelectMode mode)
  then show ?thesis by (simp add: dispatch_def)
next
  case (WebSearchClicked k)
  have u: "upd_id (noUpdates\<lparr>upd_isWebSearchLoading := Some (Some True)\<rparr>) = None \<and>
           upd_type (noUpdates\<lparr>upd_isWebSearchLoading := Some (Some True)\<rparr>) = None \<and>
           upd_timestamp (noUpdates\<lparr>upd_isWebSearchLoading := Some (Some True)\<rparr>) = None \<and>
           upd_showWebSearchButton (noUpdates\<lparr>upd_isWebSearchLoading := Some (Some True)\<rparr>) = None"
    by (simp add: noUpdates_def)
  show ?thesis
  proof (cases "step w e = w")
    case True
    then show ?thesis by simp
  next
    case False
    then obtain er where
      "step w e = handleWebSearch w (id' (messages (chat w) ! k)) (userQuery (messages (chat w)) k) er"
      using WebSearchClicked
      by (auto simp add: webSearchClick_def handleWebSearchClick_def Let_def
          split: if_splits option.splits)
    then have "messages (chat (step w e)) =
        map (\<lambda>m. if id' m = id' (messages (chat w) ! k)
                  then spread m (noUpdates\<lparr>upd_isWebSearchLoading := Some (Some True)\<rparr>) else m)
          (messages (chat w))"
      by (simp add: handleWebSearch_def dispatch_def)
    then show ?thesis using u by blast
  qed
next
  case (WebSearchAnswered k net)
  show ?thesis
  proof (cases "k < length (webPending w)")
    case False
    then show ?thesis using WebSearchAnswered by simp
  next
    case True
    obtain messageId request where p: "webPending w ! k = (messageId, request)"
      by (cases "webPending w ! k")
    obtain st' res where ex: "api_webSearchExplicit net (localStorage w) request = (st', res)"
      by (cases "api_webSearchExplicit net (localStorage w) request")
    show ?thesis
    proof (cases res)
      case (Inr r)
      let ?u = "noUpdates\<lparr>upd_webSearchResponse := Some (Some r),
                          upd_isWebSearchLoading := Some (Some False),
                          upd_showWebSearchButton := Some (Some False)\<rparr>"
      have "messages (chat (step w e)) =
          map (\<lambda>m. if id' m = messageId then spread m ?u else m) (messages (chat w))"
        using WebSearchAnswered True p ex Inr
        by (simp add: handleWebSearch_resumed_def dispatch_def)
      moreover have "upd_id ?u = None \<and> upd_type ?u = None \<and> upd_timestamp ?u = None \<and>
          upd_showWebSearchButton ?u = Some (Some False)"
        by (simp add: noUpdates_def)
      ultimately show ?thesis by blast
    next
      case (Inl err)
      let ?u = "noUpdates\<lparr>upd_isWebSearchLoading := Some (Some False)\<rparr>"
      show ?thesis
      proof (cases "instanceof_AuthenticationError err")
        case True
        then show ?thesis using WebSearchAnswered \<open>k < length (webPending w)\<close> p ex Inl
          by (simp add: handleWebSearch_resumed_def logout_def)
      next
        case False
        then have "messages (chat (step w e)) =
          map (\<lambda>m. if id' m = messageId then spread m ?u else m) (messages (chat w))"
          using WebSearchAnswered \<open>k < length (webPending w)\<close> p ex Inl
          by (simp add: handleWebSearch_resumed_def dispatch_def)
        moreover have "upd_id ?u = None \<and> upd_type ?u = None \<and> upd_timestamp ?u = None \<and>
          upd_showWebSearchButton ?u = None"
          by (simp add: noUpdates_def)
        ultimately show ?thesis by blast
      qed
    qed
  qed
next
  case DismissError
  then show ?thesis by (simp add: dispatch_def)
next
  case (HealthAnswered net)
  then show ?thesis by (simp add: checkHealth_def dispatch_def split: sum.splits)
qed

lemma step_keeps_button_off:
  assumes "k < length (messages (chat w))"
    and "showWebSearchButton (messages (chat w) ! k) \<noteq> Some True"
  shows "k < length (messages (chat (step w e))) \<and>
         showWebSearchButton (messages (chat (step w e)) ! k) \<noteq> Some True"
proof -
  have sp: "\<And>i u. upd_showWebSearchButton u = None \<or> upd_showWebSearchButton u = Some (Some False) \<Longrightarrow>
      showWebSearchButton (if id' (messages (chat w) ! k) = i
        then spread (messages (chat w) ! k) u else messages (chat w) ! k) \<noteq> Some True"
    using assms(2) by (auto simp add: spread_def)
  show ?thesis
    using step_messages [of w e] assms(1) assms(2) sp
    by (auto simp add: nth_append)
qed

lemma run_keeps_button_off:
  assumes "k < length (messages (chat w))"
    and "showWebSearchButton (messages (chat w) ! k) \<noteq> Some True"
  shows "k < length (messages (chat (run w evs))) \<and>
         showWebSearchButton (messages (chat (run w evs)) ! k) \<noteq> Some True"
proof (induction evs rule: rev_induct)
  case Nil
  then show ?case using assms by (simp add: run_def)
next
  case (snoc e evs)
  show ?case using step_keeps_button_off [of k "run w evs" e] snoc by (simp add: run_snoc)
qed

lemma step_keeps_identity:
  assumes "k < length (messages (chat w))"
  shows "k < length (messages (chat (step w e))) \<and>
         id' (messages (chat (step w e)) ! k) = id' (messages (chat w) ! k) \<and>
         type' (messages (chat (step w e)) ! k) = type' (messages (chat w) ! k) \<and>
         timestamp (messages (chat (step w e)) ! k) = timestamp (messages (chat w) ! k)"
  using step_messages [of w e] assms
  by (auto simp add: nth_append spread_unnamed)

text \<open>
  C5, as stated, fails: a partial record that names \<open>id\<close> changes the id of the message
  it is merged into. Here the message with id \<open>1\<close> has id \<open>9\<close> afterwards.
\<close>

theorem update_message_overwrites_id:
  "id' (messages exampleState ! 0) = ''1'' \<and>
   id' (messages (chatReducer exampleState
          (UPDATE_MESSAGE ''1'' (noUpdates\<lparr>upd_id := Some ''9''\<rparr>))) ! 0) = ''9''"
  by (simp add: exampleState_def initialState_def noUpdates_def spread_def
      exampleUserMessage_def exampleAssistantMessage_def)

text \<open>
  C5, amended. \<open>UPDATE_MESSAGE\<close> leaves the \<open>id\<close>, \<open>type\<close> and \<open>timestamp\<close> of every
  message as they were whenever the partial record does not name that field; a record
  that names one of them overwrites it, in each message with the targeted id, with the
  value it names. The records the controller dispatches name none of the three: no event
  of the flow changes the \<open>id\<close>, \<open>type\<close> or \<open>timestamp\<close> of a message of the history.
\<close>

theorem update_message_identity_fields:
  "(\<forall>k < length (messages s).
     (upd_id u = None \<longrightarrow>
        id' (messages (chatReducer s (UPDATE_MESSAGE i u)) ! k) = id' (messages s ! k)) \<and>
     (upd_type u = None \<longrightarrow>
        type' (messages (chatReducer s (UPDATE_MESSAGE i u)) ! k) = type' (messages s ! k)) \<and>
     (upd_timestamp u = None \<longrightarrow>
        timestamp (messages (chatReducer s (UPDATE_MESSAGE i u)) ! k) = timestamp (messages s ! k)) \<and>
     (id' (messages s ! k) = i \<longrightarrow>
        (\<forall>v. upd_id u = Some v \<longrightarrow>
           id' (messages (chatReducer s (UPDATE_MESSAGE i u)) ! k) = v) \<and>
        (\<forall>v. upd_type u = Some v \<longrightarrow>
           type' (messages (chatReducer s (UPDATE_MESSAGE i u)) ! k) = v) \<and>
        (\<forall>v. upd_timestamp u = Some v \<longrightarrow>
           timestamp (messages (chatReducer s (UPDATE_MESSAGE i u)) ! k) = v))) \<and>
   (\<forall>k < length (messages (chat w)).
      k < length (messages (chat (step w e))) \<and>
      id' (messages (chat (step w e)) ! k) = id' (messages (chat w) ! k) \<and>
      type' (messages (chat (step w e)) ! k) = type' (messages (chat w) ! k) \<and>
      timestamp (messages (chat (step w e)) ! k) = timestamp (messages (chat w) ! k))"
proof (intro conjI)
  show "\<forall>k < length (messages s).
     (upd_id u = None \<longrightarrow>
        id' (messages (chatReducer s (UPDATE_MESSAGE i u)) ! k) = id' (messages s ! k)) \<and>
     (upd_type u = None \<longrightarrow>
        type' (messages (chatReducer s (UPDATE_MESSAGE i u)) ! k) = type' (messages s ! k)) \<and>
     (upd_timestamp u = None \<longrightarrow>
        timestamp (messages (chatReducer s (UPDATE_MESSAGE i u)) ! k) = timestamp (messages s ! k)) \<and>
     (id' (messages s ! k) = i \<longrightarrow>
        (\<forall>v. upd_id u = Some v \<longrightarrow>
           id' (messages (chatReducer s (UPDATE_MESSAGE i u)) ! k) = v) \<and>
        (\<forall>v. upd_type u = Some v \<longrightarrow>
           type' (messages (chatReducer s (UPDATE_MESSAGE i u)) ! k) = v) \<and>
        (\<forall>v. upd_timestamp u = Some v \<longrightarrow>
           timestamp (messages (chatReducer s (UPDATE_MESSAGE i u)) ! k) = v))"
    by (simp add: spread_unnamed spread_named)
  show "\<forall>k < length (messages (chat w)).
      k < length (messages (chat (step w e))) \<and>
      id' (messages (chat (step w e)) ! k) = id' (messages (chat w) ! k) \<and>
      type' (messages (chat (step w e)) ! k) = type' (messages (chat w) ! k) \<and>
      timestamp (messages (chat (step w e)) ! k) = timestamp (messages (chat w) ! k)"
    using step_keeps_identity by blast
qed

theorem update_message_identity_fields_witness:
  "id' (messages (chatReducer exampleState (UPDATE_MESSAGE ''2'' loadingTrue)) ! 1) = ''2'' \<and>
   type' (messages (chatReducer exampleState (UPDATE_MESSAGE ''2'' loadingTrue)) ! 1) = assistant \<and>
   timestamp (messages (chatReducer exampleState (UPDATE_MESSAGE ''2'' loadingTrue)) ! 1) = 2 \<and>
   timestamp (messages (chatReducer exampleState
       (UPDATE_MESSAGE ''2'' (noUpdates\<lparr>upd_timestamp := Some 7\<rparr>))) ! 1) = 7 \<and>
   1 < length (messages (chat answeredWorld)) \<and>
   id' (messages (chat (step answeredWorld (WebSearchClicked 1))) ! 1) =
     id' (messages (chat answeredWorld) ! 1) \<and>
   isWebSearchLoading (messages (chat (step answeredWorld (WebSearchClicked 1))) ! 1) = Some True"
proof -
  have h: "1 < length (messages (chat answeredWorld))"
    by code_simp
  have l: "isWebSearchLoading (messages (chat (step answeredWorld (WebSearchClicked 1))) ! 1) =
      Some True"
    by code_simp
  have c: "id' (messages (chat (step answeredWorld (WebSearchClicked 1))) ! 1) =
     id' (messages (chat answeredWorld) ! 1)"
    using update_message_identity_fields [where w = answeredWorld and e = "WebSearchClicked 1"] h
    by blast
  have r: "id' (messages (chatReducer exampleState (UPDATE_MESSAGE ''2'' loadingTrue)) ! 1) = ''2'' \<and>
   type' (messages (chatReducer exampleState (UPDATE_MESSAGE ''2'' loadingTrue)) ! 1) = assistant \<and>
   timestamp (messages (chatReducer exampleState (UPDATE_MESSAGE ''2'' loadingTrue)) ! 1) = 2 \<and>
   timestamp (messages (chatReducer exampleState
       (UPDATE_MESSAGE ''2'' (noUpdates\<lparr>upd_timestamp := Some 7\<rparr>))) ! 1) = 7"
    using update_message_identity_fields [where s = exampleState and u = loadingTrue and i = "''2''"]
      update_message_identity_fields
        [where s = exampleState and u = "noUpdates\<lparr>upd_timestamp := Some 7\<rparr>" and i = "''2''"]
    by (simp add: exampleState_def initialState_def noUpdates_def loadingTrue_def spread_def
        exampleUserMessage_def exampleAssistantMessage_def)
  show ?thesis
    using h l c r by simp
qed

lemma execute_enhanced:
  assumes "api_queryEnhanced net st \<lparr>query = q, top_k = DEFAULT_TOP_K, filters = None\<rparr> = (st', Inr r)"
  shows "\<exists>m. execute EnhancedQueryStrategy net st q now date = (st', Inr m) \<and>
       enhancedResponse m = Some r \<and> showWebSearchButton m = Some (web_search_eligible r)"
  using assms by simp

text \<open>
  C4. The message the enhanced strategy makes from a phase-1 response carries that
  response and has \<open>showWebSearchButton\<close> equal to its \<open>web_search_eligible\<close>; when that is
  false the Web Search button is not rendered for the message. Once \<open>handleSubmit\<close> has
  appended such a message, no sequence of events makes the button appear for it, and
  a click at its position does nothing.
\<close>

theorem enhanced_button_follows_eligibility:
  "(\<forall>st' r. api_queryEnhanced net st \<lparr>query = q, top_k = DEFAULT_TOP_K, filters = None\<rparr> =
        (st', Inr r) \<longrightarrow>
      (\<exists>m. execute EnhancedQueryStrategy net st q now date = (st', Inr m) \<and>
           enhancedResponse m = Some r \<and>
           showWebSearchButton m = Some (web_search_eligible r) \<and>
           (\<not> web_search_eligible r \<longrightarrow> \<not> webSearchButtonShown m))) \<and>
   (\<forall>st' r evs. pending w = Some (EnhancedQueryStrategy, q) \<and>
      api_queryEnhanced net (localStorage w) \<lparr>query = q, top_k = DEFAULT_TOP_K, filters = None\<rparr> =
        (st', Inr r) \<and>
      \<not> web_search_eligible r \<longrightarrow>
        length (messages (chat w)) <
          length (messages (chat (run (handleSubmit_resumed w net now date) evs))) \<and>
        enhancedResponse
          (messages (chat (handleSubmit_resumed w net now date)) ! length (messages (chat w))) =
          Some r \<and>
        \<not> webSearchButtonShown
          (messages (chat (run (handleSubmit_resumed w net now date) evs)) !
             length (messages (chat w))) \<and>
        webSearchClick (run (handleSubmit_resumed w net now date) evs) (length (messages (chat w))) =
          run (handleSubmit_resumed w net now date) evs)"
proof (intro conjI allI impI)
  fix st' r
  assume "api_queryEnhanced net st \<lparr>query = q, top_k = DEFAULT_TOP_K, filters = None\<rparr> = (st', Inr r)"
  then show "\<exists>m. execute EnhancedQueryStrategy net st q now date = (st', Inr m) \<and>
           enhancedResponse m = Some r \<and>
           showWebSearchButton m = Some (web_search_eligible r) \<and>
           (\<not> web_search_eligible r \<longrightarrow> \<not> webSearchButtonShown m)"
    by (simp add: webSearchButtonShown_def)
next
  fix st' r evs
  let ?w = "handleSubmit_resumed w net now date"
  let ?k = "length (messages (chat w))"
  assume a: "pending w = Some (EnhancedQueryStrategy, q) \<and>
      api_queryEnhanced net (localStorage w) \<lparr>query = q, top_k = DEFAULT_TOP_K, filters = None\<rparr> =
        (st', Inr r) \<and>
      \<not> web_search_eligible r"
  then obtain m where m: "execute EnhancedQueryStrategy net (localStorage w) q now date = (st', Inr m)"
      "enhancedResponse m = Some r" "showWebSearchButton m = Some (web_search_eligible r)"
    using execute_enhanced [of net "localStorage w" q st' r now date] by blast
  have msgs: "messages (chat ?w) = messages (chat w) @ [m]"
    using a m(1) by (simp add: handleSubmit_resumed_def dispatch_def)
  then have k: "?k < length (messages (chat ?w))"
    and off: "showWebSearchButton (messages (chat ?w) ! ?k) \<noteq> Some True"
    using a m(3) by simp_all
  have later: "?k < length (messages (chat (run ?w evs))) \<and>
      showWebSearchButton (messages (chat (run ?w evs)) ! ?k) \<noteq> Some True"
    using run_keeps_button_off [OF k off] .
  show "?k < length (messages (chat (run ?w evs)))"
    using later by simp
  show "enhancedResponse (messages (chat ?w) ! ?k) = Some r"
    using msgs m(2) by simp
  show "\<not> webSearchButtonShown (messages (chat (run ?w evs)) ! ?k)"
    using later by (simp add: webSearchButtonShown_def)
  then show "webSearchClick (run ?w evs) ?k = run ?w evs"
    by (simp add: webSearchClick_def)
qed

theorem enhanced_button_follows_eligibility_witness:
  "pending waitingWorld = Some (EnhancedQueryStrategy, ''What is X'') \<and>
   \<not> web_search_eligible ineligibleResponse \<and>
   length (messages (chat waitingWorld)) = 1 \<and>
   enhancedResponse (messages (chat (handleSubmit_resumed waitingWorld (netUp ineligibleResponse) 9 9)) !
      length (messages (chat waitingWorld))) = Some ineligibleResponse \<and>
   \<not> webSearchButtonShown
      (messages (chat (run (handleSubmit_resumed waitingWorld (netUp ineligibleResponse) 9 9)
          [WebSearchClicked 1, Change ''And Y'', Submit 20 21])) !
         length (messages (chat waitingWorld))) \<and>
   showWebSearchButton (messages (chat answeredWorld) ! 1) = Some True \<and>
   webSearchButtonShown (messages (chat answeredWorld) ! 1)"
proof -
  have h1: "pending waitingWorld = Some (EnhancedQueryStrategy, ''What is X'')"
    by code_simp
  have h2: "api_queryEnhanced (netUp ineligibleResponse) (localStorage waitingWorld)
      \<lparr>query = ''What is X'', top_k = DEFAULT_TOP_K, filters = None\<rparr> =
      (localStorage waitingWorld, Inr ineligibleResponse)"
    by (simp add: api_queryEnhanced_def netUp_def handleAuthError_def ok_def)
  have h3: "\<not> web_search_eligible ineligibleResponse"
    by (simp add: ineligibleResponse_def)
  have h4: "length (messages (chat waitingWorld)) = 1"
    by code_simp
  have h5: "showWebSearchButton (messages (chat answeredWorld) ! 1) = Some True \<and>
      webSearchButtonShown (messages (chat answeredWorld) ! 1)"
    by code_simp
  note t = enhanced_button_follows_eligibility
    [where w = waitingWorld and q = "''What is X''" and net = "netUp ineligibleResponse"
       and now = 9 and date = 9]
  have c: "enhancedResponse
       (messages (chat (handleSubmit_resumed waitingWorld (netUp ineligibleResponse) 9 9)) !
          length (messages (chat waitingWorld))) = Some ineligibleResponse \<and>
     \<not> webSearchButtonShown
      (messages (chat (run (handleSubmit_resumed waitingWorld (netUp ineligibleResponse) 9 9)
          [WebSearchClicked 1, Change ''And Y'', Submit 20 21])) !
         length (messages (chat waitingWorld)))"
    using t h1 h2 h3 by blast
  show ?thesis
    using h1 h3 h4 h5 c by simp
qed

text \<open>
  C6. The message ids are not pairwise distinct in every reachable state. A question
  submitted at time 5 and answered at time 6 gives the assistant message the id \<open>7\<close>
  (\<open>Date.now() + 1\<close>); a second question submitted at time 7 gets the id \<open>7\<close> as well
  (\<open>Date.now()\<close>). A web search on the answer then updates every message with id \<open>7\<close>:
  its result is stored in the second user message too.
\<close>

theorem ids_collide_after_answer:
  "readings collidingEvents = [5, 6, 7] \<and>
   map id' (messages (chat (run exampleWorld collidingEvents))) = [''5'', ''7'', ''7''] \<and>
   map type' (messages (chat (run exampleWorld collidingEvents))) = [user, assistant, user] \<and>
   \<not> distinct (map id' (messages (chat (run exampleWorld collidingEvents)))) \<and>
   map webSearchResponse (messages (chat (run exampleWorld collidingWebSearch))) =
     [None, Some exampleWebResponse, Some exampleWebResponse]"
  by code_simp

end
